theory Spec2Isabelle
  imports Complex_Main
begin

section \<open>Vectors, quaternions and matrices\<close>

text \<open>
  The sources compute with the glMatrix library (\<^verbatim>\<open>js/lib/glmatrix\<close>), which is not
  among the source files. JavaScript numbers are idealised as real numbers. The
  component-wise \<^verbatim>\<open>vec3\<close> routines are written out below after glMatrix. A 4x4
  matrix is kept as the glMatrix call that builds it, with its arguments.
\<close>

type_synonym vec3 = "real \<times> real \<times> real"

type_synonym quat = "real \<times> real \<times> real \<times> real"

datatype mat4 =
    Identity
  | LookAt vec3 vec3 vec3
  | Ortho real real real real real real
  | Perspective real real real real
  | FromRotation real vec3
  | Multiply mat4 mat4

definition vec3_create :: vec3 where
  "vec3_create = (0, 0, 0)"

fun vec3_add :: "vec3 \<Rightarrow> vec3 \<Rightarrow> vec3" where
  "vec3_add (ax, ay, az) (bx, by, bz) = (ax + bx, ay + by, az + bz)"

fun vec3_sub :: "vec3 \<Rightarrow> vec3 \<Rightarrow> vec3" where
  "vec3_sub (ax, ay, az) (bx, by, bz) = (ax - bx, ay - by, az - bz)"

fun vec3_scale :: "vec3 \<Rightarrow> real \<Rightarrow> vec3" where
  "vec3_scale (ax, ay, az) b = (ax * b, ay * b, az * b)"

fun vec3_dot :: "vec3 \<Rightarrow> vec3 \<Rightarrow> real" where
  "vec3_dot (ax, ay, az) (bx, by, bz) = ax * bx + ay * by + az * bz"

fun vec3_cross :: "vec3 \<Rightarrow> vec3 \<Rightarrow> vec3" where
  "vec3_cross (ax, ay, az) (bx, by, bz) =
     (ay * bz - az * by, az * bx - ax * bz, ax * by - ay * bx)"

fun vec3_length :: "vec3 \<Rightarrow> real" where
  "vec3_length (x, y, z) = sqrt (x * x + y * y + z * z)"

text \<open>
  \<^verbatim>\<open>vec3.normalize\<close> scales by \<^verbatim>\<open>1 / sqrt(len)\<close> only when the squared length
  \<^verbatim>\<open>len\<close> is positive; otherwise it multiplies by \<^verbatim>\<open>len\<close> itself, so the zero
  vector stays the zero vector.
\<close>

fun vec3_normalize :: "vec3 \<Rightarrow> vec3" where
  "vec3_normalize (x, y, z) =
     (let len = x * x + y * y + z * z;
          len = (if len > 0 then 1 / sqrt len else len)
      in (x * len, y * len, z * len))"

fun vec3_transformQuat :: "vec3 \<Rightarrow> quat \<Rightarrow> vec3" where
  "vec3_transformQuat (x, y, z) (qx, qy, qz, qw) =
     (let uvx = qy * z - qz * y; uvy = qz * x - qx * z; uvz = qx * y - qy * x;
          uuvx = qy * uvz - qz * uvy; uuvy = qz * uvx - qx * uvz; uuvz = qx * uvy - qy * uvx;
          w2 = qw * 2
      in (x + uvx * w2 + uuvx * 2, y + uvy * w2 + uuvy * 2, z + uvz * w2 + uuvz * 2))"

text \<open>\<^verbatim>\<open>deg2rad\<close> and \<^verbatim>\<open>rad2deg\<close> of \<^verbatim>\<open>utils/utils.js\<close>.\<close>

definition deg2rad :: "real \<Rightarrow> real" where
  "deg2rad d = d * pi / 180"

definition rad2deg :: "real \<Rightarrow> real" where
  "rad2deg r = r * 180 / pi"

text \<open>
  A node's model matrix reaches the sources only through \<^verbatim>\<open>mat4.getRotation\<close>,
  \<^verbatim>\<open>mat4.getTranslation\<close> and \<^verbatim>\<open>mat4.getScaling\<close>; it is kept as the three
  components these calls read from it.
\<close>

record transform =
  getRotation :: quat
  getTranslation :: vec3
  getScaling :: vec3

section \<open>Cameras (\<^verbatim>\<open>utils/camera.js\<close>)\<close>

record base_camera =
  eye :: vec3
  center :: vec3
  forward :: vec3
  right :: vec3
  up :: vec3
  view :: mat4

record camera = base_camera +
  projection :: mat4

record perspective_camera = camera +
  fovy :: real
  aspect :: real
  near :: real
  far :: real

definition updateViewSpaceVectors :: "'a base_camera_scheme \<Rightarrow> 'a base_camera_scheme" where
  "updateViewSpaceVectors c =
     (let c1 = c\<lparr>forward := vec3_normalize (vec3_sub (eye c) (center c))\<rparr>;
          c2 = c1\<lparr>right := vec3_normalize (vec3_cross (0, 1, 0) (forward c1))\<rparr>
      in c2\<lparr>up := vec3_normalize (vec3_cross (forward c2) (right c2))\<rparr>)"

text \<open>
  The constructor of \<^verbatim>\<open>BaseCamera\<close>. The class is not exported; its
  \<^verbatim>\<open>projection = null\<close> is overwritten by both subclasses before the object is
  returned, so the field starts with the subclass record.
\<close>

definition BaseCamera :: "vec3 \<Rightarrow> vec3 \<Rightarrow> base_camera" where
  "BaseCamera e c =
     (let this = updateViewSpaceVectors
           \<lparr>eye = e, center = c, forward = vec3_create, right = vec3_create,
            up = vec3_create, view = Identity\<rparr>
      in this\<lparr>view := LookAt (eye this) (center this) (up this)\<rparr>)"

definition PerspectiveCamera ::
  "vec3 \<Rightarrow> vec3 \<Rightarrow> real \<Rightarrow> real \<Rightarrow> real \<Rightarrow> real \<Rightarrow> perspective_camera" where
  "PerspectiveCamera e c fv asp n f =
     camera.extend
       (base_camera.extend (BaseCamera e c)
          (camera.fields (Perspective (deg2rad fv) asp n f)))
       (perspective_camera.fields fv asp n f)"

definition OrthoCamera ::
  "vec3 \<Rightarrow> vec3 \<Rightarrow> real \<Rightarrow> real \<Rightarrow> real \<Rightarrow> real \<Rightarrow> real \<Rightarrow> real \<Rightarrow> camera" where
  "OrthoCamera e c l r b t n f =
     base_camera.extend (BaseCamera e c) (camera.fields (Ortho l r b t n f))"

text \<open>
  The default values of the parameters \<^verbatim>\<open>near\<close> and \<^verbatim>\<open>far\<close> of both constructors;
  a call that leaves the two arguments out passes them.
\<close>

definition default_near :: real where
  "default_near = 1 / 100"

definition default_far :: real where
  "default_far = 100"

definition default_camera :: perspective_camera where
  "default_camera =
     PerspectiveCamera (2, 1 / 2, - 2) (0, 0, 0) 60 (16 / 9) default_near default_far"

text \<open>
  \<^verbatim>\<open>BaseCamera.update\<close> reads the mouse and keyboard through \<^verbatim>\<open>Input\<close>; the
  values it reads are gathered in a record. \<^verbatim>\<open>vec3.rotateY\<close> and
  \<^verbatim>\<open>vec3.transformMat4\<close> are glMatrix routines and are parameters of the model.
\<close>

record input =
  isMouseDown0 :: bool
  isMouseDown1 :: bool
  isMouseDown2 :: bool
  isKeyDownSpace :: bool
  getMouseDx :: real
  getMouseDy :: real

definition update ::
  "(vec3 \<Rightarrow> vec3 \<Rightarrow> real \<Rightarrow> vec3) \<Rightarrow> (vec3 \<Rightarrow> mat4 \<Rightarrow> vec3) \<Rightarrow> input \<Rightarrow> real \<Rightarrow>
   'a base_camera_scheme \<Rightarrow> bool \<times> 'a base_camera_scheme" where
  "update rotateY transformMat4 inp delta_time c0 =
     (let (d1, c1) =
            (if isMouseDown2 inp then
               (let translation =
                      vec3_scale (forward c0) (- getMouseDy inp * delta_time)
                in (True, c0\<lparr>eye := vec3_add (eye c0) translation\<rparr>))
             else (False, c0));
          (d2, c2) =
            (if isMouseDown0 inp \<and> \<not> isKeyDownSpace inp then
               (let ca = c1\<lparr>eye := rotateY (eye c1) (center c1)
                                  (deg2rad (- 10 * getMouseDx inp * delta_time))\<rparr>;
                    rotation =
                      FromRotation (deg2rad (- 10 * getMouseDy inp * delta_time)) (right ca)
                in (True, ca\<lparr>eye := transformMat4 (eye ca) rotation\<rparr>))
             else (d1, c1));
          (d3, c3) =
            (if isMouseDown1 inp \<or> (isMouseDown0 inp \<and> isKeyDownSpace inp) then
               (let translation =
                      vec3_add
                        (vec3_scale (right c2) (- (3 / 4) * getMouseDx inp * delta_time))
                        (vec3_scale (up c2) ((3 / 4) * getMouseDy inp * delta_time))
                in (True, c2\<lparr>eye := vec3_add (eye c2) translation,
                              center := vec3_add (center c2) translation\<rparr>))
             else (d2, c2))
      in if d3 then
           (let c4 = updateViewSpaceVectors c3
            in (d3, c4\<lparr>view := LookAt (eye c4) (center c4) (up c4)\<rparr>))
         else (d3, c3))"

section \<open>Lights (\<^verbatim>\<open>utils/light.js\<close>)\<close>

datatype light_kind = Ambient | Directional | Point

text \<open>
  Shaders are objects shared by reference; a reference is the index of the shader in
  the application's collection, and \<^verbatim>\<open>null\<close> is \<open>None\<close>.
\<close>

record light =
  light_id :: nat
  color :: vec3
  intensity :: real
  kind :: light_kind
  model_matrix :: transform
  target_shader :: "nat option"
  shader :: nat

definition Light_getCamera :: "light \<Rightarrow> camera option" where
  "Light_getCamera this = None"

definition DirectionalLight_getCamera :: "light \<Rightarrow> vec3 \<Rightarrow> camera" where
  "DirectionalLight_getCamera this scale =
     (let radius = vec3_length scale;
          dir = vec3_create;
          eye = vec3_create;
          center = vec3_add eye dir
      in OrthoCamera eye center (- radius) radius (- radius) radius default_near default_far)"

definition PointLight_getCamera :: "light \<Rightarrow> vec3 \<Rightarrow> perspective_camera" where
  "PointLight_getCamera this scale =
     (let eye = vec3_create;
          center = vec3_create;
          v1 = vec3_normalize (vec3_sub scale eye);
          v2 = vec3_normalize (vec3_sub center eye);
          fovy = arccos (vec3_dot v1 v2);
          fovy = min (rad2deg fovy * 2) 180
      in PerspectiveCamera eye center fovy 1 default_near default_far)"

text \<open>Method dispatch on the class of the light; \<^verbatim>\<open>AmbientLight\<close> inherits \<^verbatim>\<open>Light.getCamera\<close>.\<close>

definition getCamera :: "light \<Rightarrow> vec3 \<Rightarrow> camera option" where
  "getCamera this scale =
     (case kind this of
        Ambient \<Rightarrow> Light_getCamera this
      | Directional \<Rightarrow> Some (DirectionalLight_getCamera this scale)
      | Point \<Rightarrow> Some (camera.truncate (PointLight_getCamera this scale)))"

section \<open>The application state and its collaborators\<close>

text \<open>
  The shader, framebuffer, quad, cube and scene classes and the WebGL context are
  outside the source files. The calls that the render passes and the lights make on them
  are kept in a log, in the order in which the sources issue them, together with the part
  of their state that the sources read back or that a later call depends on: the uniform
  values of every shader, the size of every framebuffer, the bound render target and the
  texture bound to each texture unit.
\<close>

datatype uniform = U1i int | U1f real | U3f vec3 | U4x4f mat4

datatype fbo_ref = Fbo_pixel_filter | Fbo_directional | Fbo_point

datatype texture = ColorTexture fbo_ref | DepthTexture fbo_ref

record framebuffer =
  width :: int
  height :: int

text \<open>
  A scene draw is logged with the exclusion list it was given and with what it can
  observe: the render target and the texture-unit bindings in force when it is issued.
\<close>

datatype event =
    ShaderUse nat
  | ShaderSetUniform nat string uniform
  | ShaderUnuse nat
  | FboResize fbo_ref int int
  | FboBind fbo_ref
  | FboUnbind fbo_ref
  | SceneSetShader nat
  | SceneRender "string list option" "fbo_ref option" "nat \<Rightarrow> texture option"
  | Viewport int int
  | ClearCanvas
  | QuadRender int texture texture
  | ActiveTexture nat
  | BindTexture "texture option"
  | LightGizmo light_kind nat

datatype error = TypeError | DrawError

record scene_node =
  node_type :: string
  node_light :: "light option"

record scene =
  getNodes :: "scene_node list"
  scenegraph_transformation :: transform

text \<open>
  The fields of \<^verbatim>\<open>WebGlApp\<close> and \<^verbatim>\<open>RenderPasses\<close> that the render passes use, the
  state of the collaborators, and \<open>draw_throws\<close>: the outcomes of the coming
  \<^verbatim>\<open>scene.render\<close> calls, \<open>True\<close> for a call that throws (none throws once the list
  is used up). A call on \<^verbatim>\<open>this.scene\<close> while it is \<^verbatim>\<open>null\<close> is a \<open>TypeError\<close>.
\<close>

record app =
  shaders :: "nat \<Rightarrow> string \<Rightarrow> uniform option"
  light_shader :: nat
  shadow_shader :: nat
  quad_shader :: nat
  active_shader :: nat
  camera :: perspective_camera
  first_directional_light :: "light option"
  first_point_light :: "light option"
  filter_mode :: int
  fbo :: fbo_ref
  framebuffers :: "fbo_ref \<Rightarrow> framebuffer"
  scene :: "scene option"
  bound_framebuffer :: "fbo_ref option"
  active_texture :: nat
  texture_units :: "nat \<Rightarrow> texture option"
  trace :: "event list"
  draw_throws :: "bool list"

type_synonym 'a result = "(error \<times> app) + 'a"

definition emit :: "event \<Rightarrow> app \<Rightarrow> app" where
  "emit e a = a\<lparr>trace := trace a @ [e]\<rparr>"

subsection \<open>Shader\<close>

text \<open>
  Modelled from the spec: the \<^verbatim>\<open>Shader\<close> class (\<^verbatim>\<open>utils/shader.js\<close>) is missing from
  the source files. \<^verbatim>\<open>use\<close> and \<^verbatim>\<open>unuse\<close> activate and deactivate the program,
  and \<^verbatim>\<open>setUniform1i\<close>, \<^verbatim>\<open>setUniform1f\<close>, \<^verbatim>\<open>setUniform3f\<close> and
  \<^verbatim>\<open>setUniform4x4f\<close> store a value under the name of a uniform.
\<close>

definition shader_use :: "nat \<Rightarrow> app \<Rightarrow> app" where
  "shader_use s a = emit (ShaderUse s) a"

definition shader_unuse :: "nat \<Rightarrow> app \<Rightarrow> app" where
  "shader_unuse s a = emit (ShaderUnuse s) a"

definition setUniform :: "nat \<Rightarrow> string \<Rightarrow> uniform \<Rightarrow> app \<Rightarrow> app" where
  "setUniform s name v a =
     emit (ShaderSetUniform s name v) (a\<lparr>shaders := (shaders a)(s := (shaders a s)(name \<mapsto> v))\<rparr>)"

definition setUniform1i :: "nat \<Rightarrow> string \<Rightarrow> int \<Rightarrow> app \<Rightarrow> app" where
  "setUniform1i s name v = setUniform s name (U1i v)"

definition setUniform1f :: "nat \<Rightarrow> string \<Rightarrow> real \<Rightarrow> app \<Rightarrow> app" where
  "setUniform1f s name v = setUniform s name (U1f v)"

definition setUniform3f :: "nat \<Rightarrow> string \<Rightarrow> vec3 \<Rightarrow> app \<Rightarrow> app" where
  "setUniform3f s name v = setUniform s name (U3f v)"

definition setUniform4x4f :: "nat \<Rightarrow> string \<Rightarrow> mat4 \<Rightarrow> app \<Rightarrow> app" where
  "setUniform4x4f s name v = setUniform s name (U4x4f v)"

subsection \<open>FrameBufferObject\<close>

text \<open>
  Modelled from the spec: \<^verbatim>\<open>FrameBufferObject\<close> (\<^verbatim>\<open>assignment4.fbo.js\<close>) is missing
  from the source files. \<^verbatim>\<open>resize\<close> stores the size, \<^verbatim>\<open>bindFramebuffer\<close> makes the
  object the render target, \<^verbatim>\<open>unbindFramebuffer\<close> restores the default target, and
  the two accessors return the handles of its colour and depth textures.
\<close>

definition fbo_resize :: "fbo_ref \<Rightarrow> int \<Rightarrow> int \<Rightarrow> app \<Rightarrow> app" where
  "fbo_resize f w h a =
     emit (FboResize f w h) (a\<lparr>framebuffers := (framebuffers a)(f := \<lparr>width = w, height = h\<rparr>)\<rparr>)"

definition bindFramebuffer :: "fbo_ref \<Rightarrow> app \<Rightarrow> app" where
  "bindFramebuffer f a = emit (FboBind f) (a\<lparr>bound_framebuffer := Some f\<rparr>)"

definition unbindFramebuffer :: "fbo_ref \<Rightarrow> app \<Rightarrow> app" where
  "unbindFramebuffer f a = emit (FboUnbind f) (a\<lparr>bound_framebuffer := None\<rparr>)"

definition getColorTexture :: "fbo_ref \<Rightarrow> texture" where
  "getColorTexture f = ColorTexture f"

definition getDepthTexture :: "fbo_ref \<Rightarrow> texture" where
  "getDepthTexture f = DepthTexture f"

subsection \<open>WebGL context, scene and quad\<close>

text \<open>
  Modelled from the spec: the \<^verbatim>\<open>Scene\<close> class (\<^verbatim>\<open>utils/scene.js\<close>) and the
  \<^verbatim>\<open>Quad\<close> class (\<^verbatim>\<open>assignment4.quad.js\<close>) are missing from the source files.
  \<^verbatim>\<open>scene.setShader\<close> switches the shading technique of the scene,
  \<^verbatim>\<open>scene.render\<close> issues one draw of the scene with a list of excluded node types,
  and \<^verbatim>\<open>quad.render\<close> draws the full-screen quad with a filter index and the two
  textures it samples. Of the WebGL context, \<^verbatim>\<open>activeTexture\<close> selects a texture unit
  and \<^verbatim>\<open>bindTexture\<close> binds a texture, or none, to the selected unit.
\<close>

definition activeTexture :: "nat \<Rightarrow> app \<Rightarrow> app" where
  "activeTexture n a = emit (ActiveTexture n) (a\<lparr>active_texture := n\<rparr>)"

definition bindTexture :: "texture option \<Rightarrow> app \<Rightarrow> app" where
  "bindTexture t a =
     emit (BindTexture t) (a\<lparr>texture_units := (texture_units a)(active_texture a := t)\<rparr>)"

definition setViewport :: "int \<Rightarrow> int \<Rightarrow> app \<Rightarrow> app" where
  "setViewport w h a = emit (Viewport w h) a"

definition clearCanvas :: "app \<Rightarrow> app" where
  "clearCanvas a = emit ClearCanvas a"

definition and_then :: "app result \<Rightarrow> (app \<Rightarrow> 'a result) \<Rightarrow> 'a result" where
  "and_then r f = (case r of Inl e \<Rightarrow> Inl e | Inr a \<Rightarrow> f a)"

definition scene_setShader :: "nat \<Rightarrow> app \<Rightarrow> app result" where
  "scene_setShader s a =
     (case scene a of
        None \<Rightarrow> Inl (TypeError, a)
      | Some sc \<Rightarrow> Inr (emit (SceneSetShader s) a))"

definition scene_render :: "string list option \<Rightarrow> app \<Rightarrow> app result" where
  "scene_render excludes a =
     (case scene a of
        None \<Rightarrow> Inl (TypeError, a)
      | Some sc \<Rightarrow>
          (let a' = emit (SceneRender excludes (bound_framebuffer a) (texture_units a)) a
           in case draw_throws a of
                [] \<Rightarrow> Inr a'
              | t # ts \<Rightarrow>
                  if t then Inl (DrawError, a'\<lparr>draw_throws := ts\<rparr>)
                  else Inr (a'\<lparr>draw_throws := ts\<rparr>)))"

definition quad_render :: "int \<Rightarrow> texture \<Rightarrow> texture \<Rightarrow> app \<Rightarrow> app" where
  "quad_render filter_idx color_tex depth_tex a = emit (QuadRender filter_idx color_tex depth_tex) a"

subsection \<open>Light uniforms and gizmos (\<^verbatim>\<open>utils/light.js\<close>)\<close>

text \<open>The decimal digits of \<^verbatim>\<open>this.id\<close>, as the template strings of the uniform names insert them.\<close>

fun string_of_nat :: "nat \<Rightarrow> string" where
  "string_of_nat n =
     (if n < 10 then [char_of (48 + n)]
      else string_of_nat (n div 10) @ [char_of (48 + n mod 10)])"

declare string_of_nat.simps [simp del]

text \<open>
  The \<^verbatim>\<open>update\<close> methods write to the target shader only; the light is returned
  beside the application state to show what becomes of its fields.
\<close>

definition AmbientLight_update :: "light \<Rightarrow> app \<Rightarrow> light \<times> app" where
  "AmbientLight_update this a =
     (case target_shader this of
        Some s \<Rightarrow>
          (let a = shader_use s a;
               a = setUniform3f s
                     (''u_lights_ambient['' @ string_of_nat (light_id this) @ ''].color'')
                     (color this) a;
               a = setUniform1f s
                     (''u_lights_ambient['' @ string_of_nat (light_id this) @ ''].intensity'')
                     (intensity this) a;
               a = shader_unuse s a
           in (this, a))
      | None \<Rightarrow> (this, a))"

definition DirectionalLight_update :: "light \<Rightarrow> app \<Rightarrow> light \<times> app" where
  "DirectionalLight_update this a =
     (let transform = getRotation (model_matrix this);
          direction = vec3_transformQuat (0, - 1, 0) transform
      in case target_shader this of
           Some s \<Rightarrow>
             (let a = shader_use s a;
                  a = setUniform3f s
                        (''u_lights_directional['' @ string_of_nat (light_id this) @ ''].direction'')
                        direction a;
                  a = setUniform3f s
                        (''u_lights_directional['' @ string_of_nat (light_id this) @ ''].color'')
                        (color this) a;
                  a = setUniform1f s
                        (''u_lights_directional['' @ string_of_nat (light_id this) @ ''].intensity'')
                        (intensity this) a;
                  a = shader_unuse s a
              in (this, a))
         | None \<Rightarrow> (this, a))"

definition PointLight_update :: "light \<Rightarrow> app \<Rightarrow> light \<times> app" where
  "PointLight_update this a =
     (let position = getTranslation (model_matrix this)
      in case target_shader this of
           Some s \<Rightarrow>
             (let a = shader_use s a;
                  a = setUniform3f s
                        (''u_lights_point['' @ string_of_nat (light_id this) @ ''].position'')
                        position a;
                  a = setUniform3f s
                        (''u_lights_point['' @ string_of_nat (light_id this) @ ''].color'')
                        (color this) a;
                  a = setUniform1f s
                        (''u_lights_point['' @ string_of_nat (light_id this) @ ''].intensity'')
                        (intensity this) a;
                  a = shader_unuse s a
              in (this, a))
         | None \<Rightarrow> (this, a))"

definition light_update :: "light \<Rightarrow> app \<Rightarrow> light \<times> app" where
  "light_update this a =
     (case kind this of
        Ambient \<Rightarrow> AmbientLight_update this a
      | Directional \<Rightarrow> DirectionalLight_update this a
      | Point \<Rightarrow> PointLight_update this a)"

text \<open>\<^verbatim>\<open>Light.render\<close>; the draw of the box itself (\<^verbatim>\<open>Cube.render\<close>) is the logged gizmo.\<close>

definition Light_render :: "light \<Rightarrow> app \<Rightarrow> app" where
  "Light_render this a =
     (let a = shader_use (shader this) a;
          a = setUniform3f (shader this) ''u_color'' (color this) a;
          a = shader_unuse (shader this) a
      in emit (LightGizmo (kind this) (light_id this)) a)"

section \<open>The application (\<^verbatim>\<open>app/webglapp.js\<close>)\<close>

definition set_camera_uniforms :: "nat \<Rightarrow> app \<Rightarrow> app" where
  "set_camera_uniforms s a =
     (let a = shader_use s a;
          a = setUniform3f s ''u_eye'' (eye (camera a)) a;
          a = setUniform4x4f s ''u_v'' (view (camera a)) a;
          a = setUniform4x4f s ''u_p'' (projection (camera a)) a
      in shader_unuse s a)"

text \<open>
  The constructor of \<^verbatim>\<open>WebGlApp\<close> for a collection of \<open>n\<close> shaders (at least two,
  the shadow and the quad shader being the last two of the collection).
\<close>

definition WebGlApp :: "nat \<Rightarrow> app" where
  "WebGlApp n =
     fold set_camera_uniforms [0..<n]
       \<lparr>shaders = (\<lambda>s. Map.empty),
        light_shader = 1,
        shadow_shader = n - 2,
        quad_shader = n - 1,
        active_shader = 2,
        camera = default_camera,
        first_directional_light = None,
        first_point_light = None,
        filter_mode = - 1,
        fbo = Fbo_pixel_filter,
        framebuffers = (\<lambda>f. \<lparr>width = 0, height = 0\<rparr>),
        scene = None,
        bound_framebuffer = None,
        active_texture = 0,
        texture_units = (\<lambda>u. None),
        trace = [],
        draw_throws = []\<rparr>"

definition instanceof :: "light option \<Rightarrow> light_kind \<Rightarrow> bool" where
  "instanceof l k = (case l of None \<Rightarrow> False | Some x \<Rightarrow> kind x = k)"

fun track_lights :: "scene_node list \<Rightarrow> app \<Rightarrow> app" where
  "track_lights [] a = a"
| "track_lights (node # nodes) a =
     (let a = (if node_type node = ''light'' \<and> instanceof (node_light node) Directional then
                 (if first_directional_light a = None then
                    a\<lparr>first_directional_light := node_light node\<rparr>
                  else a)
               else a);
          a = (if node_type node = ''light'' \<and> instanceof (node_light node) Point then
                 (if first_point_light a = None then
                    a\<lparr>first_point_light := node_light node\<rparr>
                  else a)
               else a)
      in track_lights nodes a)"

text \<open>
  \<^verbatim>\<open>openScene\<close>; the scene that \<^verbatim>\<open>new Scene\<close> builds from the file is the argument.
\<close>

definition openScene :: "scene \<Rightarrow> app \<Rightarrow> app result" where
  "openScene loaded a =
     (let a = a\<lparr>first_directional_light := None, first_point_light := None\<rparr>;
          a = a\<lparr>scene := Some loaded\<rparr>
      in and_then (scene_setShader (active_shader a) a)
           (\<lambda>a. Inr (track_lights (getNodes loaded) a)))"

section \<open>The render passes (\<^verbatim>\<open>RenderPasses\<close>)\<close>

definition RenderPasses :: "nat \<Rightarrow> app" where
  "RenderPasses n =
     (let a = WebGlApp n;
          a = fbo_resize Fbo_directional 1024 1024 a;
          a = fbo_resize Fbo_point 1024 1024 a
      in a\<lparr>fbo := Fbo_pixel_filter\<rparr>)"

definition renderpass_normal :: "int \<Rightarrow> int \<Rightarrow> string list option \<Rightarrow> app \<Rightarrow> app result" where
  "renderpass_normal canvas_width canvas_height excludes a =
     and_then (scene_setShader (active_shader a) a)
       (\<lambda>a. let a = setViewport canvas_width canvas_height a;
                 a = clearCanvas a
             in scene_render excludes a)"

definition renderpass_pixel_filter :: "int \<Rightarrow> int \<Rightarrow> app \<Rightarrow> app result" where
  "renderpass_pixel_filter canvas_width canvas_height a =
     (let a = fbo_resize (fbo a) canvas_width canvas_height a;
          a = bindFramebuffer (fbo a) a
      in and_then (renderpass_normal canvas_width canvas_height (Some [''light'']) a)
           (\<lambda>a. let a = unbindFramebuffer (fbo a) a;
                     a = quad_render (filter_mode a) (getColorTexture (fbo a))
                           (getDepthTexture (fbo a)) a
                 in scene_render (Some [''model'']) a))"

definition do_depth_pass :: "fbo_ref \<Rightarrow> light \<Rightarrow> app \<Rightarrow> (mat4 \<times> app) result" where
  "do_depth_pass f current_light a =
     (case scene a of
        None \<Rightarrow> Inl (TypeError, a)
      | Some sc \<Rightarrow>
          (let scale = getScaling (scenegraph_transformation sc)
           in case getCamera current_light scale of
                None \<Rightarrow> Inl (TypeError, a)
              | Some shadow_camera \<Rightarrow>
                  (let shadow_v = view shadow_camera;
                       shadow_p = projection shadow_camera;
                       shader = active_shader a;
                       a = shader_use shader a;
                       a = setUniform3f shader ''u_eye'' (eye shadow_camera) a;
                       a = setUniform4x4f shader ''u_v'' shadow_v a;
                       a = setUniform4x4f shader ''u_p'' shadow_p a;
                       a = shader_unuse shader a;
                       a = fbo_resize f (width (framebuffers a f)) (height (framebuffers a f)) a;
                       a = bindFramebuffer f a
                   in and_then
                        (renderpass_normal (width (framebuffers a f)) (height (framebuffers a f))
                           (Some [''light'']) a)
                        (\<lambda>a. let a = unbindFramebuffer f a;
                                  a = shader_use shader a;
                                  a = setUniform3f shader ''u_eye'' (eye (camera a)) a;
                                  a = setUniform4x4f shader ''u_v'' (view (camera a)) a;
                                  a = setUniform4x4f shader ''u_p'' (projection (camera a)) a;
                                  a = shader_unuse shader a
                              in Inr (Multiply shadow_p shadow_v, a)))))"

text \<open>The block between \<^verbatim>\<open>shader.use()\<close> and \<^verbatim>\<open>shader.unuse()\<close> of the final pass.\<close>

definition configure_shadow_shader :: "mat4 \<Rightarrow> mat4 \<Rightarrow> app \<Rightarrow> app" where
  "configure_shadow_shader u_shadow_pv_directional u_shadow_pv_point a =
     (let shader = shadow_shader a;
          a = shader_use shader a;
          a = setUniform3f shader ''u_eye'' (eye (camera a)) a;
          a = setUniform4x4f shader ''u_v'' (view (camera a)) a;
          a = setUniform4x4f shader ''u_p'' (projection (camera a)) a;
          a = setUniform4x4f shader ''u_shadow_pv_point'' u_shadow_pv_point a;
          a = setUniform4x4f shader ''u_shadow_pv_directional'' u_shadow_pv_directional a;
          a = a\<lparr>fbo := Fbo_point\<rparr>;
          a = setUniform1i shader ''u_shadow_tex_point'' 4 a;
          a = activeTexture 4 a;
          a = bindTexture (Some (getDepthTexture (fbo a))) a;
          a = a\<lparr>fbo := Fbo_directional\<rparr>;
          a = setUniform1i shader ''u_shadow_tex_directional'' 3 a;
          a = activeTexture 3 a;
          a = bindTexture (Some (getDepthTexture (fbo a))) a
      in shader_unuse shader a)"

text \<open>
  The two guarded statements of \<^verbatim>\<open>renderpass_shadowmap\<close>: a depth pass for a tracked
  light, the identity matrix otherwise; the gizmo of a tracked light, nothing otherwise.
\<close>

definition depth_pass_if_present :: "fbo_ref \<Rightarrow> light option \<Rightarrow> app \<Rightarrow> (mat4 \<times> app) result" where
  "depth_pass_if_present f l a =
     (case l of
        Some current_light \<Rightarrow> do_depth_pass f current_light a
      | None \<Rightarrow> Inr (Identity, a))"

definition render_if_present :: "light option \<Rightarrow> app \<Rightarrow> app" where
  "render_if_present l a = (case l of Some this \<Rightarrow> Light_render this a | None \<Rightarrow> a)"

text \<open>
  The rest of \<^verbatim>\<open>renderpass_shadowmap\<close> after the depth passes, from
  \<^verbatim>\<open>setViewport\<close> to the unbinding of the two texture units.
\<close>

definition final_rendering_pass :: "int \<Rightarrow> int \<Rightarrow> mat4 \<Rightarrow> mat4 \<Rightarrow> app \<Rightarrow> app result" where
  "final_rendering_pass canvas_width canvas_height u_shadow_pv_directional u_shadow_pv_point a =
     (let a = setViewport canvas_width canvas_height a;
          a = clearCanvas a
      in and_then (scene_setShader (shadow_shader a) a)
           (\<lambda>a. let a = configure_shadow_shader u_shadow_pv_directional u_shadow_pv_point a
                 in and_then (scene_render (Some [''light'']) a)
                      (\<lambda>a. let a = render_if_present (first_directional_light a) a;
                                a = render_if_present (first_point_light a) a;
                                a = activeTexture 3 a;
                                a = bindTexture None a;
                                a = activeTexture 4 a;
                                a = bindTexture None a
                            in Inr a)))"

definition renderpass_shadowmap :: "int \<Rightarrow> int \<Rightarrow> app \<Rightarrow> app result" where
  "renderpass_shadowmap canvas_width canvas_height a =
     (case depth_pass_if_present Fbo_directional (first_directional_light a) a of
        Inl e \<Rightarrow> Inl e
      | Inr (u_shadow_pv_directional, a) \<Rightarrow>
          (case depth_pass_if_present Fbo_point (first_point_light a) a of
             Inl e \<Rightarrow> Inl e
           | Inr (u_shadow_pv_point, a) \<Rightarrow>
               final_rendering_pass canvas_width canvas_height
                 u_shadow_pv_directional u_shadow_pv_point a))"

section \<open>Observations\<close>

text \<open>Unit length and orthogonality of the view-space vectors of a camera.\<close>

definition unit_vector :: "vec3 \<Rightarrow> bool" where
  "unit_vector v = (vec3_length v = 1)"

definition orthonormal :: "vec3 \<Rightarrow> vec3 \<Rightarrow> vec3 \<Rightarrow> bool" where
  "orthonormal a b c =
     (unit_vector a \<and> unit_vector b \<and> unit_vector c \<and>
      vec3_dot a b = 0 \<and> vec3_dot a c = 0 \<and> vec3_dot b c = 0)"

definition orthonormal_frame :: "'a base_camera_scheme \<Rightarrow> bool" where
  "orthonormal_frame c = orthonormal (forward c) (right c) (up c)"

definition frame :: "'a base_camera_scheme \<Rightarrow> vec3 \<times> vec3 \<times> vec3" where
  "frame c = (forward c, right c, up c)"

text \<open>
  A direction is parallel to the world up axis \<open>(0, 1, 0)\<close> when its cross product with
  the axis vanishes; the zero direction (eye and centre coincide) is included.
\<close>

definition parallel_to_up :: "vec3 \<Rightarrow> bool" where
  "parallel_to_up d = (vec3_cross (0, 1, 0) d = (0, 0, 0))"

text \<open>Outcome of a pass: the state it leaves behind, and the matrix a depth pass returns.\<close>

definition next_draw_throws :: "app \<Rightarrow> bool" where
  "next_draw_throws a = (case draw_throws a of [] \<Rightarrow> False | t # ts \<Rightarrow> t)"

definition state_after :: "app result \<Rightarrow> app" where
  "state_after r = (case r of Inl (e, a) \<Rightarrow> a | Inr a \<Rightarrow> a)"

definition state_after_depth_pass :: "(mat4 \<times> app) result \<Rightarrow> app" where
  "state_after_depth_pass r = (case r of Inl (e, a) \<Rightarrow> a | Inr (m, a) \<Rightarrow> a)"

definition returned_matrix :: "(mat4 \<times> app) result \<Rightarrow> mat4 option" where
  "returned_matrix r = (case r of Inl e \<Rightarrow> None | Inr (m, a) \<Rightarrow> Some m)"

definition camera_uniforms :: "nat \<Rightarrow> app \<Rightarrow> uniform option \<times> uniform option \<times> uniform option" where
  "camera_uniforms s a = (shaders a s ''u_eye'', shaders a s ''u_v'', shaders a s ''u_p'')"

definition uniforms_of_camera ::
  "'a camera_scheme \<Rightarrow> uniform option \<times> uniform option \<times> uniform option" where
  "uniforms_of_camera c =
     (Some (U3f (eye c)), Some (U4x4f (view c)), Some (U4x4f (projection c)))"

text \<open>The calls that a pass adds to the log, and what can be read off them.\<close>

definition new_events :: "app \<Rightarrow> app \<Rightarrow> event list" where
  "new_events a a' = drop (length (trace a)) (trace a')"

text \<open>
  A light gizmo reaches the screen through \<^verbatim>\<open>Light.render\<close> or through a scene draw
  that does not exclude the nodes of type \<^verbatim>\<open>light\<close>.
\<close>

fun draws_light_gizmo :: "event \<Rightarrow> bool" where
  "draws_light_gizmo (LightGizmo k i) = True"
| "draws_light_gizmo (SceneRender excludes tgt units) =
     (case excludes of None \<Rightarrow> True | Some xs \<Rightarrow> ''light'' \<notin> set xs)"
| "draws_light_gizmo e = False"

fun is_draw :: "event \<Rightarrow> bool" where
  "is_draw (SceneRender excludes tgt units) = True"
| "is_draw e = False"

fun draw_units :: "event \<Rightarrow> nat \<Rightarrow> texture option" where
  "draw_units (SceneRender excludes tgt units) = units"
| "draw_units e = (\<lambda>u. None)"

definition last_draw :: "event list \<Rightarrow> event option" where
  "last_draw es = (let ds = filter is_draw es in if ds = [] then None else Some (last ds))"

definition gizmo_of :: "light option \<Rightarrow> event list" where
  "gizmo_of l = (case l of None \<Rightarrow> [] | Some this \<Rightarrow> [LightGizmo (kind this) (light_id this)])"

definition depth_pass_events :: "fbo_ref \<Rightarrow> 'a camera_scheme \<Rightarrow> app \<Rightarrow> event list" where
  "depth_pass_events f cam a =
     [ShaderUse (active_shader a),
      ShaderSetUniform (active_shader a) ''u_eye'' (U3f (eye cam)),
      ShaderSetUniform (active_shader a) ''u_v'' (U4x4f (view cam)),
      ShaderSetUniform (active_shader a) ''u_p'' (U4x4f (projection cam)),
      ShaderUnuse (active_shader a),
      FboResize f (width (framebuffers a f)) (height (framebuffers a f)),
      FboBind f,
      SceneSetShader (active_shader a),
      Viewport (width (framebuffers a f)) (height (framebuffers a f)),
      ClearCanvas,
      SceneRender (Some [''light'']) (Some f) (texture_units a),
      FboUnbind f,
      ShaderUse (active_shader a),
      ShaderSetUniform (active_shader a) ''u_eye'' (U3f (eye (camera a))),
      ShaderSetUniform (active_shader a) ''u_v'' (U4x4f (view (camera a))),
      ShaderSetUniform (active_shader a) ''u_p'' (U4x4f (projection (camera a))),
      ShaderUnuse (active_shader a)]"

definition light_render_events :: "light option \<Rightarrow> event list" where
  "light_render_events l =
     (case l of
        None \<Rightarrow> []
      | Some this \<Rightarrow>
          [ShaderUse (shader this), ShaderSetUniform (shader this) ''u_color'' (U3f (color this)),
           ShaderUnuse (shader this), LightGizmo (kind this) (light_id this)])"

definition final_pass_events :: "int \<Rightarrow> int \<Rightarrow> mat4 \<Rightarrow> mat4 \<Rightarrow> app \<Rightarrow> event list" where
  "final_pass_events w h md mp a =
     [Viewport w h, ClearCanvas, SceneSetShader (shadow_shader a), ShaderUse (shadow_shader a),
      ShaderSetUniform (shadow_shader a) ''u_eye'' (U3f (eye (camera a))),
      ShaderSetUniform (shadow_shader a) ''u_v'' (U4x4f (view (camera a))),
      ShaderSetUniform (shadow_shader a) ''u_p'' (U4x4f (projection (camera a))),
      ShaderSetUniform (shadow_shader a) ''u_shadow_pv_point'' (U4x4f mp),
      ShaderSetUniform (shadow_shader a) ''u_shadow_pv_directional'' (U4x4f md),
      ShaderSetUniform (shadow_shader a) ''u_shadow_tex_point'' (U1i 4),
      ActiveTexture 4, BindTexture (Some (DepthTexture Fbo_point)),
      ShaderSetUniform (shadow_shader a) ''u_shadow_tex_directional'' (U1i 3),
      ActiveTexture 3, BindTexture (Some (DepthTexture Fbo_directional)),
      ShaderUnuse (shadow_shader a),
      SceneRender (Some [''light'']) (bound_framebuffer a)
        ((texture_units a)(4 \<mapsto> DepthTexture Fbo_point, 3 \<mapsto> DepthTexture Fbo_directional))]
     @ light_render_events (first_directional_light a)
     @ light_render_events (first_point_light a)
     @ [ActiveTexture 3, BindTexture None, ActiveTexture 4, BindTexture None]"

definition pixel_filter_events :: "int \<Rightarrow> int \<Rightarrow> app \<Rightarrow> event list" where
  "pixel_filter_events w h a =
     [FboResize (fbo a) w h,
      FboBind (fbo a),
      SceneSetShader (active_shader a), Viewport w h, ClearCanvas,
      SceneRender (Some [''light'']) (Some (fbo a)) (texture_units a),
      FboUnbind (fbo a),
      QuadRender (filter_mode a) (ColorTexture (fbo a)) (DepthTexture (fbo a)),
      SceneRender (Some [''model'']) None (texture_units a)]"

text \<open>
  Modelled from the spec: the texture units that the base colour and material
  textures occupy. The material code is missing from the source files; the comment in
  \<^verbatim>\<open>renderpass_shadowmap\<close> gives the units as 0 to 2.
\<close>

definition material_texture_units :: "nat list" where
  "material_texture_units = [0, 1, 2]"

text \<open>A scene none of whose nodes carries a directional or a point light.\<close>

definition ambient_only :: "scene \<Rightarrow> bool" where
  "ambient_only sc =
     list_all (\<lambda>n. \<not> instanceof (node_light n) Directional \<and> \<not> instanceof (node_light n) Point)
       (getNodes sc)"

subsection \<open>Example inputs\<close>

definition example_transform :: "vec3 \<Rightarrow> transform" where
  "example_transform t = \<lparr>getRotation = (0, 0, 0, 1), getTranslation = t, getScaling = (1, 1, 1)\<rparr>"

definition example_directional_light :: light where
  "example_directional_light =
     \<lparr>light_id = 0, color = (1, 1, 1), intensity = 1, kind = Directional,
      model_matrix = example_transform (0, 3, 0), target_shader = Some 2, shader = 1\<rparr>"

definition example_point_light :: light where
  "example_point_light =
     \<lparr>light_id = 0, color = (1, 1, 1), intensity = 1, kind = Point,
      model_matrix = example_transform (1, 2, 3), target_shader = None, shader = 1\<rparr>"

definition example_ambient_light :: light where
  "example_ambient_light =
     \<lparr>light_id = 0, color = (1, 1, 1), intensity = 1, kind = Ambient,
      model_matrix = example_transform (0, 0, 0), target_shader = None, shader = 1\<rparr>"

definition example_scene :: "light list \<Rightarrow> scene" where
  "example_scene ls =
     \<lparr>getNodes = \<lparr>node_type = ''model'', node_light = None\<rparr> #
                 map (\<lambda>l. \<lparr>node_type = ''light'', node_light = Some l\<rparr>) ls,
      scenegraph_transformation = example_transform (0, 0, 0)\<rparr>"

definition example_app :: "light list \<Rightarrow> app" where
  "example_app ls = state_after (openScene (example_scene ls) (RenderPasses 6))"

section \<open>Vector algebra\<close>

lemma sq3_le_zero:
  fixes x y z :: real
  assumes "x * x + y * y + z * z \<le> 0"
  shows "x = 0 \<and> y = 0 \<and> z = 0"
proof -
  have "0 \<le> x * x" "0 \<le> y * y" "0 \<le> z * z" by simp_all
  with assms have "x * x = 0" "y * y = 0" "z * z = 0" by linarith+
  then show ?thesis by simp
qed

lemma dot_nonneg: "0 \<le> vec3_dot v v"
  by (cases v) simp

lemma dot_pos_iff: "0 < vec3_dot v v \<longleftrightarrow> v \<noteq> (0, 0, 0)"
proof (cases v)
  case (fields x y z)
  show ?thesis
  proof
    assume "0 < vec3_dot v v"
    then show "v \<noteq> (0, 0, 0)" by auto
  next
    assume nz: "v \<noteq> (0, 0, 0)"
    show "0 < vec3_dot v v"
    proof (rule ccontr)
      assume "\<not> 0 < vec3_dot v v"
      then have "x * x + y * y + z * z \<le> 0" using fields by simp
      then have "x = 0 \<and> y = 0 \<and> z = 0" by (rule sq3_le_zero)
      with nz fields show False by simp
    qed
  qed
qed

lemma normalize_scale:
  "vec3_normalize v = vec3_scale v (if vec3_dot v v > 0 then 1 / sqrt (vec3_dot v v) else 0)"
proof (cases "0 < vec3_dot v v")
  case True
  then show ?thesis by (cases v) (simp add: Let_def)
next
  case False
  then have "v = (0, 0, 0)" using dot_pos_iff by blast
  then show ?thesis by simp
qed

lemma length_dot: "vec3_length v = sqrt (vec3_dot v v)"
  by (cases v) simp

lemma dot_scale_scale: "vec3_dot (vec3_scale a k) (vec3_scale b m) = k * m * vec3_dot a b"
  by (cases a; cases b) (simp add: algebra_simps)

lemma normalize_unit: "v \<noteq> (0, 0, 0) \<Longrightarrow> vec3_dot (vec3_normalize v) (vec3_normalize v) = 1"
proof -
  assume "v \<noteq> (0, 0, 0)"
  then have p: "0 < vec3_dot v v" by (simp add: dot_pos_iff)
  then show ?thesis
    by (simp add: normalize_scale dot_scale_scale)
qed

lemma dot_cross_left: "vec3_dot (vec3_cross a b) a = 0"
  by (cases a; cases b) (simp add: algebra_simps)

lemma dot_cross_right: "vec3_dot (vec3_cross a b) b = 0"
  by (cases a; cases b) (simp add: algebra_simps)

lemma dot_commute: "vec3_dot a b = vec3_dot b a"
  by (cases a; cases b) (simp add: algebra_simps)

lemma lagrange:
  "vec3_dot (vec3_cross a b) (vec3_cross a b) =
     vec3_dot a a * vec3_dot b b - vec3_dot a b * vec3_dot a b"
  by (cases a; cases b) (simp add: algebra_simps)

lemma cross_scale_right: "vec3_cross a (vec3_scale b k) = vec3_scale (vec3_cross a b) k"
  by (cases a; cases b) (simp add: algebra_simps)

lemma scale_zero_iff: "vec3_scale v k = (0,0,0) \<longleftrightarrow> k = 0 \<or> v = (0,0,0)"
  by (cases v) auto


lemma unit_vector_dot: "unit_vector v \<longleftrightarrow> vec3_dot v v = 1"
  by (simp add: unit_vector_def length_dot)

lemma normalize_unit_vector: "v \<noteq> (0, 0, 0) \<Longrightarrow> unit_vector (vec3_normalize v)"
  by (simp add: unit_vector_dot normalize_unit)

lemma dot_normalize_left:
  "vec3_dot a b = 0 \<Longrightarrow> vec3_dot (vec3_normalize a) b = 0"
  using dot_scale_scale [of a _ b 1] by (cases b) (simp add: normalize_scale)

lemma normalize_eq_zero_iff: "vec3_normalize v = (0, 0, 0) \<longleftrightarrow> v = (0, 0, 0)"
proof
  assume z: "vec3_normalize v = (0, 0, 0)"
  show "v = (0, 0, 0)"
  proof (rule ccontr)
    assume "v \<noteq> (0, 0, 0)"
    then have "vec3_dot (vec3_normalize v) (vec3_normalize v) = 1" by (rule normalize_unit)
    with z show False by simp
  qed
next
  assume "v = (0, 0, 0)" then show "vec3_normalize v = (0, 0, 0)" by simp
qed

lemma cross_up_normalize:
  "vec3_cross (0, 1, 0) (vec3_normalize d) = (0, 0, 0) \<longleftrightarrow> vec3_cross (0, 1, 0) d = (0, 0, 0)"
proof (cases "0 < vec3_dot d d")
  case True
  then have "0 < 1 / sqrt (vec3_dot d d)" by simp
  then show ?thesis
    using True by (simp add: normalize_scale cross_scale_right scale_zero_iff)
next
  case False
  then have "d = (0, 0, 0)" using dot_pos_iff by blast
  then show ?thesis by simp
qed

lemma updateViewSpaceVectors_orthonormal:
  assumes "\<not> parallel_to_up (vec3_sub (eye c) (center c))"
  shows "orthonormal_frame (updateViewSpaceVectors c)"
proof -
  define d where "d = vec3_sub (eye c) (center c)"
  define f where "f = vec3_normalize d"
  define r where "r = vec3_normalize (vec3_cross (0, 1, 0) f)"
  define u where "u = vec3_normalize (vec3_cross f r)"
  have fr: "forward (updateViewSpaceVectors c) = f" "right (updateViewSpaceVectors c) = r"
    "up (updateViewSpaceVectors c) = u"
    by (simp_all add: updateViewSpaceVectors_def Let_def f_def r_def u_def d_def)
  from assms have cz: "vec3_cross (0, 1, 0) d \<noteq> (0, 0, 0)"
    by (simp add: parallel_to_up_def d_def)
  then have dz: "d \<noteq> (0, 0, 0)" by auto
  have ff: "vec3_dot f f = 1" unfolding f_def using dz by (rule normalize_unit)
  have cfz: "vec3_cross (0, 1, 0) f \<noteq> (0, 0, 0)"
    unfolding f_def using cz by (simp add: cross_up_normalize)
  have rr: "vec3_dot r r = 1" unfolding r_def using cfz by (rule normalize_unit)
  have rf: "vec3_dot r f = 0"
    unfolding r_def by (rule dot_normalize_left) (rule dot_cross_right)
  then have fr0: "vec3_dot f r = 0" by (simp add: dot_commute)
  have "vec3_dot (vec3_cross f r) (vec3_cross f r) = 1"
    by (simp add: lagrange ff rr fr0)
  then have "vec3_cross f r \<noteq> (0, 0, 0)" by auto
  then have uu: "vec3_dot u u = 1" unfolding u_def by (rule normalize_unit)
  have uf: "vec3_dot u f = 0"
    unfolding u_def by (rule dot_normalize_left) (rule dot_cross_left)
  have ur: "vec3_dot u r = 0"
    unfolding u_def by (rule dot_normalize_left) (rule dot_cross_right)
  show ?thesis
    using ff rr uu fr0 uf ur
    by (simp add: orthonormal_frame_def orthonormal_def unit_vector_dot fr dot_commute)
qed

lemma frame_updateViewSpaceVectors:
  "frame (updateViewSpaceVectors c) =
     (let f = vec3_normalize (vec3_sub (eye c) (center c));
          r = vec3_normalize (vec3_cross (0, 1, 0) f)
      in (f, r, vec3_normalize (vec3_cross f r)))"
  by (simp add: frame_def updateViewSpaceVectors_def Let_def)

lemma eye_center_updateViewSpaceVectors [simp]:
  "eye (updateViewSpaceVectors c) = eye c" "center (updateViewSpaceVectors c) = center c"
  by (simp_all add: updateViewSpaceVectors_def Let_def)

lemma frame_recomputed:
  "frame (updateViewSpaceVectors ((updateViewSpaceVectors c)\<lparr>view := v\<rparr>)) =
   frame ((updateViewSpaceVectors c)\<lparr>view := v\<rparr>)"
  by (simp add: frame_def updateViewSpaceVectors_def Let_def)

lemma update_recomputes:
  "update rotateY transformMat4 inp delta_time c = (d, c') \<Longrightarrow>
     (if d then frame c' = frame (updateViewSpaceVectors c') else c' = c)"
  by (auto simp: update_def Let_def frame_recomputed split: if_splits prod.splits)

lemma BaseCamera_frame: "frame (BaseCamera e ct) = frame (updateViewSpaceVectors (BaseCamera e ct))"
  by (simp add: BaseCamera_def Let_def frame_recomputed)

section \<open>Effects of the passes\<close>

lemmas prim_defs = emit_def shader_use_def shader_unuse_def setUniform_def setUniform1i_def
  setUniform1f_def setUniform3f_def setUniform4x4f_def fbo_resize_def bindFramebuffer_def
  unbindFramebuffer_def getColorTexture_def getDepthTexture_def activeTexture_def
  bindTexture_def setViewport_def clearCanvas_def quad_render_def

lemma renderpass_normal_loaded:
  assumes "scene a = Some sc"
  shows "renderpass_normal w h ex a =
    (let a' = a\<lparr>trace := trace a @ [SceneSetShader (active_shader a), Viewport w h, ClearCanvas,
                 SceneRender ex (bound_framebuffer a) (texture_units a)]\<rparr>
     in case draw_throws a of [] \<Rightarrow> Inr a'
        | t # ts \<Rightarrow> if t then Inl (DrawError, a'\<lparr>draw_throws := ts\<rparr>) else Inr (a'\<lparr>draw_throws := ts\<rparr>))"
  using assms
  by (simp add: renderpass_normal_def and_then_def scene_setShader_def scene_render_def prim_defs Let_def
      split: list.splits)

lemma do_depth_pass_camera_uniforms:
  assumes "scene a = Some sc"
    and "getCamera l (getScaling (scenegraph_transformation sc)) = Some cam"
  shows "if next_draw_throws a then
           isl (do_depth_pass f l a) \<and>
           camera_uniforms (active_shader a) (state_after_depth_pass (do_depth_pass f l a)) = uniforms_of_camera cam
         else
           \<not> isl (do_depth_pass f l a) \<and>
           camera_uniforms (active_shader a) (state_after_depth_pass (do_depth_pass f l a)) = uniforms_of_camera (camera a)"
  using assms
  by (simp add: do_depth_pass_def renderpass_normal_loaded and_then_def prim_defs Let_def
      next_draw_throws_def state_after_depth_pass_def camera_uniforms_def uniforms_of_camera_def
      split: list.splits)

lemma track_lights_keeps [simp]:
  "scene (track_lights ns a) = scene a"
  "active_shader (track_lights ns a) = active_shader a"
  "shadow_shader (track_lights ns a) = shadow_shader a"
  "camera (track_lights ns a) = camera a"
  "draw_throws (track_lights ns a) = draw_throws a"
  "fbo (track_lights ns a) = fbo a"
  "trace (track_lights ns a) = trace a"
  "shaders (track_lights ns a) = shaders a"
  "texture_units (track_lights ns a) = texture_units a"
  "framebuffers (track_lights ns a) = framebuffers a"
  by (induction ns arbitrary: a; simp add: Let_def)+

lemma fold_set_camera_uniforms_keeps [simp]:
  "scene (fold set_camera_uniforms ss a) = scene a"
  "active_shader (fold set_camera_uniforms ss a) = active_shader a"
  "shadow_shader (fold set_camera_uniforms ss a) = shadow_shader a"
  "camera (fold set_camera_uniforms ss a) = camera a"
  "draw_throws (fold set_camera_uniforms ss a) = draw_throws a"
  "fbo (fold set_camera_uniforms ss a) = fbo a"
  "first_directional_light (fold set_camera_uniforms ss a) = first_directional_light a"
  "first_point_light (fold set_camera_uniforms ss a) = first_point_light a"
  by (induction ss arbitrary: a; simp add: set_camera_uniforms_def prim_defs Let_def)+

lemma example_app_fields:
  "scene (example_app ls) = Some (example_scene ls)"
  "active_shader (example_app ls) = 2"
  "shadow_shader (example_app ls) = 4"
  "camera (example_app ls) = default_camera"
  "draw_throws (example_app ls) = []"
  "fbo (example_app ls) = Fbo_pixel_filter"
  by (simp_all add: example_app_def openScene_def RenderPasses_def WebGlApp_def state_after_def
      and_then_def scene_setShader_def prim_defs Let_def)

lemma example_lights:
  "first_directional_light (example_app []) = None"
  "first_point_light (example_app []) = None"
  "first_directional_light (example_app [example_ambient_light]) = None"
  "first_point_light (example_app [example_ambient_light]) = None"
  "first_directional_light (example_app [example_ambient_light, example_point_light, example_directional_light]) = Some example_directional_light"
  "first_point_light (example_app [example_ambient_light, example_point_light, example_directional_light]) = Some example_point_light"
  by (simp_all add: example_app_def openScene_def RenderPasses_def WebGlApp_def state_after_def
      and_then_def scene_setShader_def prim_defs Let_def example_scene_def instanceof_def
      example_ambient_light_def example_point_light_def example_directional_light_def
      example_transform_def)

lemma new_events_append [simp]: "trace a' = trace a @ es \<Longrightarrow> new_events a a' = es"
  by (simp add: new_events_def)

lemma do_depth_pass_Inr_cases:
  assumes "do_depth_pass f l a = Inr (m, a1)"
  shows "\<exists>sc cam. scene a = Some sc \<and> getCamera l (getScaling (scenegraph_transformation sc)) = Some cam
      \<and> \<not> next_draw_throws a"
  using assms
  by (simp add: do_depth_pass_def renderpass_normal_def scene_setShader_def scene_render_def
      and_then_def Let_def next_draw_throws_def prim_defs
      split: option.splits list.splits if_splits)

lemma do_depth_pass_returns:
  assumes "scene a = Some sc"
    and "getCamera l (getScaling (scenegraph_transformation sc)) = Some cam"
    and "\<not> next_draw_throws a"
  shows "do_depth_pass f l a =
     Inr (Multiply (projection cam) (view cam),
          a\<lparr>shaders := (shaders a)(active_shader a :=
                (shaders a (active_shader a))(''u_eye'' \<mapsto> U3f (eye (camera a)),
                   ''u_v'' \<mapsto> U4x4f (view (camera a)), ''u_p'' \<mapsto> U4x4f (projection (camera a)))),
            framebuffers := (framebuffers a)(f := \<lparr>width = width (framebuffers a f), height = height (framebuffers a f)\<rparr>),
            bound_framebuffer := None,
            trace := trace a @ depth_pass_events f cam a,
            draw_throws := tl (draw_throws a)\<rparr>)"
  using assms
  by (simp add: do_depth_pass_def renderpass_normal_loaded and_then_def Let_def
      next_draw_throws_def prim_defs depth_pass_events_def
      split: list.splits)

lemma render_if_present_fields [simp]:
  "trace (render_if_present l a) = trace a @ light_render_events l"
  "texture_units (render_if_present l a) = texture_units a"
  "active_texture (render_if_present l a) = active_texture a"
  "first_directional_light (render_if_present l a) = first_directional_light a"
  "first_point_light (render_if_present l a) = first_point_light a"
  "fbo (render_if_present l a) = fbo a"
  "shadow_shader (render_if_present l a) = shadow_shader a"
  "scene (render_if_present l a) = scene a"
  "camera (render_if_present l a) = camera a"
  by (simp_all add: render_if_present_def Light_render_def light_render_events_def prim_defs Let_def
      split: option.splits)

lemma render_if_present_uniform:
  "name \<noteq> ''u_color'' \<Longrightarrow> shaders (render_if_present l a) s name = shaders a s name"
  by (simp add: render_if_present_def Light_render_def prim_defs Let_def split: option.splits)

lemma configure_shadow_shader_fields [simp]:
  "scene (configure_shadow_shader md mp a) = scene a"
  "draw_throws (configure_shadow_shader md mp a) = draw_throws a"
  "first_directional_light (configure_shadow_shader md mp a) = first_directional_light a"
  "first_point_light (configure_shadow_shader md mp a) = first_point_light a"
  "shadow_shader (configure_shadow_shader md mp a) = shadow_shader a"
  "camera (configure_shadow_shader md mp a) = camera a"
  "bound_framebuffer (configure_shadow_shader md mp a) = bound_framebuffer a"
  "fbo (configure_shadow_shader md mp a) = Fbo_directional"
  "texture_units (configure_shadow_shader md mp a) =
     (texture_units a)(4 \<mapsto> DepthTexture Fbo_point, 3 \<mapsto> DepthTexture Fbo_directional)"
  by (simp_all add: configure_shadow_shader_def prim_defs Let_def)

lemma configure_shadow_shader_trace [simp]:
  "trace (configure_shadow_shader md mp a) = trace a @
     [ShaderUse (shadow_shader a),
      ShaderSetUniform (shadow_shader a) ''u_eye'' (U3f (eye (camera a))),
      ShaderSetUniform (shadow_shader a) ''u_v'' (U4x4f (view (camera a))),
      ShaderSetUniform (shadow_shader a) ''u_p'' (U4x4f (projection (camera a))),
      ShaderSetUniform (shadow_shader a) ''u_shadow_pv_point'' (U4x4f mp),
      ShaderSetUniform (shadow_shader a) ''u_shadow_pv_directional'' (U4x4f md),
      ShaderSetUniform (shadow_shader a) ''u_shadow_tex_point'' (U1i 4),
      ActiveTexture 4, BindTexture (Some (DepthTexture Fbo_point)),
      ShaderSetUniform (shadow_shader a) ''u_shadow_tex_directional'' (U1i 3),
      ActiveTexture 3, BindTexture (Some (DepthTexture Fbo_directional)),
      ShaderUnuse (shadow_shader a)]"
  by (simp add: configure_shadow_shader_def prim_defs Let_def)

lemma configure_shadow_shader_uniforms [simp]:
  assumes "s = shadow_shader a"
  shows "shaders (configure_shadow_shader md mp a) s ''u_shadow_pv_directional'' = Some (U4x4f md)"
  "shaders (configure_shadow_shader md mp a) s ''u_shadow_pv_point'' = Some (U4x4f mp)"
  "shaders (configure_shadow_shader md mp a) s ''u_shadow_tex_directional'' = Some (U1i 3)"
  "shaders (configure_shadow_shader md mp a) s ''u_shadow_tex_point'' = Some (U1i 4)"
  using assms by (simp_all add: configure_shadow_shader_def prim_defs Let_def)

lemmas final_defs = final_rendering_pass_def scene_setShader_def scene_render_def
      and_then_def Let_def next_draw_throws_def state_after_def emit_def setViewport_def
      clearCanvas_def activeTexture_def bindTexture_def

lemma final_rendering_pass_returns:
  assumes "scene a = Some sc" and "\<not> next_draw_throws a"
  shows "\<not> isl (final_rendering_pass w h md mp a)"
  using assms by (simp add: final_defs split: list.splits)

lemma final_rendering_pass_trace:
  assumes "scene a = Some sc" and "\<not> next_draw_throws a"
  shows "trace (state_after (final_rendering_pass w h md mp a)) = trace a @ final_pass_events w h md mp a"
  using assms by (simp add: final_defs final_pass_events_def split: list.splits)

lemma final_rendering_pass_state:
  assumes "scene a = Some sc" and "\<not> next_draw_throws a"
  shows "texture_units (state_after (final_rendering_pass w h md mp a)) 3 = None"
    "texture_units (state_after (final_rendering_pass w h md mp a)) 4 = None"
    "fbo (state_after (final_rendering_pass w h md mp a)) = Fbo_directional"
    "shadow_shader (state_after (final_rendering_pass w h md mp a)) = shadow_shader a"
  using assms by (simp_all add: final_defs split: list.splits)

lemma final_rendering_pass_uniforms:
  assumes "scene a = Some sc" and "\<not> next_draw_throws a"
  shows "shaders (state_after (final_rendering_pass w h md mp a)) (shadow_shader a) ''u_shadow_pv_directional'' = Some (U4x4f md)"
    "shaders (state_after (final_rendering_pass w h md mp a)) (shadow_shader a) ''u_shadow_pv_point'' = Some (U4x4f mp)"
    "shaders (state_after (final_rendering_pass w h md mp a)) (shadow_shader a) ''u_shadow_tex_directional'' = Some (U1i 3)"
    "shaders (state_after (final_rendering_pass w h md mp a)) (shadow_shader a) ''u_shadow_tex_point'' = Some (U1i 4)"
  using assms by (simp_all add: final_defs render_if_present_uniform split: list.splits)

lemma depth_pass_events_facts [simp]:
  "filter draws_light_gizmo (depth_pass_events f cam a) = []"
  "FboBind g \<in> set (depth_pass_events f cam a) \<longleftrightarrow> g = f"
  by (auto simp: depth_pass_events_def)

lemma do_depth_pass_Inr:
  assumes "do_depth_pass f l a = Inr (m, a1)"
  shows "first_directional_light a1 = first_directional_light a"
    "first_point_light a1 = first_point_light a"
    "shadow_shader a1 = shadow_shader a"
    "scene a1 = scene a"
    "\<exists>es. trace a1 = trace a @ es \<and> filter draws_light_gizmo es = [] \<and> (\<forall>g. FboBind g \<in> set es \<longleftrightarrow> g = f)"
proof -
  from do_depth_pass_Inr_cases [OF assms] obtain sc cam where
    h: "scene a = Some sc" "getCamera l (getScaling (scenegraph_transformation sc)) = Some cam"
       "\<not> next_draw_throws a" by blast
  note eq = assms [unfolded do_depth_pass_returns [OF h]]
  from eq show "first_directional_light a1 = first_directional_light a"
    "first_point_light a1 = first_point_light a" "shadow_shader a1 = shadow_shader a"
    "scene a1 = scene a" by auto
  from eq have "trace a1 = trace a @ depth_pass_events f cam a" by auto
  then show "\<exists>es. trace a1 = trace a @ es \<and> filter draws_light_gizmo es = [] \<and> (\<forall>g. FboBind g \<in> set es \<longleftrightarrow> g = f)"
    by simp
qed

lemma depth_pass_if_present_Inr:
  assumes "depth_pass_if_present f l a = Inr (m, a1)"
  shows "first_directional_light a1 = first_directional_light a \<and>
    first_point_light a1 = first_point_light a \<and>
    shadow_shader a1 = shadow_shader a \<and>
    scene a1 = scene a \<and>
    (l = None \<longrightarrow> m = Identity) \<and>
    (\<exists>es. trace a1 = trace a @ es \<and>
          filter draws_light_gizmo es = [] \<and> (\<forall>g. (FboBind g \<in> set es) = (g = f \<and> l \<noteq> None)))"
proof (cases l)
  case None
  with assms show ?thesis
    by (auto simp: depth_pass_if_present_def)
next
  case (Some x)
  with assms have d: "do_depth_pass f x a = Inr (m, a1)" by (simp add: depth_pass_if_present_def)
  from do_depth_pass_Inr [OF d] Some show ?thesis
    by simp
qed

lemma final_rendering_pass_isl:
  "isl (final_rendering_pass w h md mp a) \<longleftrightarrow> scene a = None \<or> next_draw_throws a"
  by (simp add: final_defs split: list.splits option.splits)

lemma final_pass_events_facts [simp]:
  "filter draws_light_gizmo (final_pass_events w h md mp a) =
     gizmo_of (first_directional_light a) @ gizmo_of (first_point_light a)"
  "FboBind g \<notin> set (final_pass_events w h md mp a)"
  "last_draw (es @ final_pass_events w h md mp a) =
     Some (SceneRender (Some [''light'']) (bound_framebuffer a)
        ((texture_units a)(4 \<mapsto> DepthTexture Fbo_point, 3 \<mapsto> DepthTexture Fbo_directional)))"
  by (auto simp: final_pass_events_def light_render_events_def gizmo_of_def last_draw_def Let_def
      split: option.splits)

lemma not_isl_shadowmap_dir:
  assumes "\<not> isl (renderpass_shadowmap w h a)"
  shows "\<exists>md a1. depth_pass_if_present Fbo_directional (first_directional_light a) a = Inr (md, a1)"
proof (cases "depth_pass_if_present Fbo_directional (first_directional_light a) a")
  case (Inl e)
  with assms show ?thesis by (simp add: renderpass_shadowmap_def)
next
  case (Inr p)
  then show ?thesis by (cases p) simp
qed

lemma not_isl_shadowmap_point:
  assumes "\<not> isl (renderpass_shadowmap w h a)"
    and "depth_pass_if_present Fbo_directional (first_directional_light a) a = Inr (md, a1)"
  shows "\<exists>mp a2. depth_pass_if_present Fbo_point (first_point_light a1) a1 = Inr (mp, a2)"
proof (cases "depth_pass_if_present Fbo_point (first_point_light a1) a1")
  case (Inl e)
  with assms show ?thesis by (simp add: renderpass_shadowmap_def)
next
  case (Inr p)
  then show ?thesis by (cases p) simp
qed


lemma renderpass_shadowmap_returns:
  assumes "\<not> isl (renderpass_shadowmap w h a)"
  obtains md mp a2 es where
    "renderpass_shadowmap w h a = final_rendering_pass w h md mp a2"
    "scene a2 \<noteq> None" "\<not> next_draw_throws a2"
    "first_directional_light a = None \<longrightarrow> md = Identity"
    "first_point_light a = None \<longrightarrow> mp = Identity"
    "first_directional_light a2 = first_directional_light a"
    "first_point_light a2 = first_point_light a"
    "shadow_shader a2 = shadow_shader a"
    "trace a2 = trace a @ es" "filter draws_light_gizmo es = []"
    "\<forall>g. FboBind g \<in> set es \<longleftrightarrow>
       (g = Fbo_directional \<and> first_directional_light a \<noteq> None) \<or>
       (g = Fbo_point \<and> first_point_light a \<noteq> None)"
proof -
  from not_isl_shadowmap_dir [OF assms] obtain md a1 where
    d1: "depth_pass_if_present Fbo_directional (first_directional_light a) a = Inr (md, a1)"
    by blast
  from not_isl_shadowmap_point [OF assms d1] obtain mp a2 where
    d2: "depth_pass_if_present Fbo_point (first_point_light a1) a1 = Inr (mp, a2)"
    by blast
  from d1 d2 have eq: "renderpass_shadowmap w h a = final_rendering_pass w h md mp a2"
    by (simp add: renderpass_shadowmap_def)
  with assms have ok: "scene a2 \<noteq> None" "\<not> next_draw_throws a2"
    by (simp_all add: final_rendering_pass_isl)
  note f1 = depth_pass_if_present_Inr [OF d1]
  note f2 = depth_pass_if_present_Inr [OF d2]
  from f1 have "\<exists>es. trace a1 = trace a @ es \<and> filter draws_light_gizmo es = [] \<and>
      (\<forall>g. (FboBind g \<in> set es) = (g = Fbo_directional \<and> first_directional_light a \<noteq> None))"
    by (elim conjE)
  then obtain es1 where e1: "trace a1 = trace a @ es1" "filter draws_light_gizmo es1 = []"
    "\<forall>g. (FboBind g \<in> set es1) = (g = Fbo_directional \<and> first_directional_light a \<noteq> None)"
    by (elim exE conjE)
  from f2 have "\<exists>es. trace a2 = trace a1 @ es \<and> filter draws_light_gizmo es = [] \<and>
      (\<forall>g. (FboBind g \<in> set es) = (g = Fbo_point \<and> first_point_light a1 \<noteq> None))"
    by (elim conjE)
  then obtain es2 where e2: "trace a2 = trace a1 @ es2" "filter draws_light_gizmo es2 = []"
    "\<forall>g. (FboBind g \<in> set es2) = (g = Fbo_point \<and> first_point_light a1 \<noteq> None)"
    by (elim exE conjE)
  have p1: "first_point_light a1 = first_point_light a" using f1 by simp
  have c1: "trace a2 = trace a @ (es1 @ es2)" using e1 e2 by simp
  have c2: "filter draws_light_gizmo (es1 @ es2) = []" using e1 e2 by simp
  have c3: "\<forall>g. FboBind g \<in> set (es1 @ es2) \<longleftrightarrow>
       (g = Fbo_directional \<and> first_directional_light a \<noteq> None) \<or>
       (g = Fbo_point \<and> first_point_light a \<noteq> None)"
    using e1(3) e2(3) p1 by simp
  have c4: "first_directional_light a = None \<longrightarrow> md = Identity" using f1 by simp
  have c5: "first_point_light a = None \<longrightarrow> mp = Identity" using f2 p1 by simp
  have c6: "first_directional_light a2 = first_directional_light a"
    "first_point_light a2 = first_point_light a" "shadow_shader a2 = shadow_shader a"
    using f1 f2 by simp_all
  show thesis
    by (rule that [OF eq ok c4 c5 c6 c1 c2 c3])
qed


lemma shadowmap_after:
  assumes "\<not> isl (renderpass_shadowmap w h a)"
  obtains md mp a2 es where
    "first_directional_light a = None \<longrightarrow> md = Identity"
    "first_point_light a = None \<longrightarrow> mp = Identity"
    "first_directional_light a2 = first_directional_light a"
    "first_point_light a2 = first_point_light a"
    "filter draws_light_gizmo es = []"
    "\<forall>g. FboBind g \<in> set es \<longleftrightarrow>
       (g = Fbo_directional \<and> first_directional_light a \<noteq> None) \<or>
       (g = Fbo_point \<and> first_point_light a \<noteq> None)"
    "new_events a (state_after (renderpass_shadowmap w h a)) = es @ final_pass_events w h md mp a2"
    "shaders (state_after (renderpass_shadowmap w h a)) (shadow_shader a)
              ''u_shadow_pv_directional'' = Some (U4x4f md)"
    "shaders (state_after (renderpass_shadowmap w h a)) (shadow_shader a)
              ''u_shadow_pv_point'' = Some (U4x4f mp)"
    "shaders (state_after (renderpass_shadowmap w h a)) (shadow_shader a)
              ''u_shadow_tex_directional'' = Some (U1i 3)"
    "shaders (state_after (renderpass_shadowmap w h a)) (shadow_shader a)
              ''u_shadow_tex_point'' = Some (U1i 4)"
    "texture_units (state_after (renderpass_shadowmap w h a)) 3 = None"
    "texture_units (state_after (renderpass_shadowmap w h a)) 4 = None"
    "fbo (state_after (renderpass_shadowmap w h a)) = Fbo_directional"
proof -
  from assms obtain md mp a2 es where
    eq: "renderpass_shadowmap w h a = final_rendering_pass w h md mp a2"
    and ok: "scene a2 \<noteq> None" "\<not> next_draw_throws a2"
    and m: "first_directional_light a = None \<longrightarrow> md = Identity"
       "first_point_light a = None \<longrightarrow> mp = Identity"
    and l: "first_directional_light a2 = first_directional_light a"
       "first_point_light a2 = first_point_light a" 
    and s: "shadow_shader a2 = shadow_shader a"
    and t: "trace a2 = trace a @ es" 
    and g: "filter draws_light_gizmo es = []"
       "\<forall>g. FboBind g \<in> set es \<longleftrightarrow>
       (g = Fbo_directional \<and> first_directional_light a \<noteq> None) \<or>
       (g = Fbo_point \<and> first_point_light a \<noteq> None)"
    by (rule renderpass_shadowmap_returns)
  from ok obtain sc where sc: "scene a2 = Some sc" by auto
  have tr: "trace (state_after (renderpass_shadowmap w h a)) =
      trace a @ (es @ final_pass_events w h md mp a2)"
    using final_rendering_pass_trace [OF sc ok(2), of w h md mp] t by (simp add: eq)
  have ne: "new_events a (state_after (renderpass_shadowmap w h a)) = es @ final_pass_events w h md mp a2"
    using tr by (rule new_events_append)
  note u = final_rendering_pass_uniforms [OF sc ok(2), of w h md mp, folded eq, unfolded s]
  note v = final_rendering_pass_state(1-3) [OF sc ok(2), of w h md mp, folded eq]
  show thesis
    by (rule that [OF m l g ne u v])
qed

section \<open>Cameras of the lights, and passes that return\<close>

lemma example_getCamera:
  "getCamera example_directional_light s = Some (DirectionalLight_getCamera example_directional_light s)"
  by (simp add: getCamera_def example_directional_light_def)

lemma DirectionalLight_getCamera_fields:
  "eye (DirectionalLight_getCamera l s) = (0, 0, 0)"
  "center (DirectionalLight_getCamera l s) = (0, 0, 0)"
  "projection (DirectionalLight_getCamera l s) =
     Ortho (- vec3_length s) (vec3_length s) (- vec3_length s) (vec3_length s) (1 / 100) 100"
  by (simp_all add: DirectionalLight_getCamera_def OrthoCamera_def BaseCamera_def
      updateViewSpaceVectors_def vec3_create_def default_near_def default_far_def Let_def
      base_camera.defs camera.defs)

lemma dot_zero [simp]: "vec3_dot v (0, 0, 0) = 0" "vec3_dot (0, 0, 0) v = 0"
  by (cases v; simp)+

lemma PointLight_getCamera_fields:
  "eye (PointLight_getCamera l s) = (0, 0, 0)"
  "center (PointLight_getCamera l s) = (0, 0, 0)"
  "fovy (PointLight_getCamera l s) = 180"
  "aspect (PointLight_getCamera l s) = 1"
  by (simp_all add: PointLight_getCamera_def PerspectiveCamera_def BaseCamera_def
      updateViewSpaceVectors_def vec3_create_def default_near_def default_far_def Let_def
      base_camera.defs camera.defs perspective_camera.defs rad2deg_def)

lemma default_camera_eye: "eye default_camera = (2, 1 / 2, - 2)"
  by (simp add: default_camera_def PerspectiveCamera_def BaseCamera_def
      updateViewSpaceVectors_def Let_def base_camera.defs camera.defs)

lemma do_depth_pass_returned_matrix:
  assumes "scene a = Some sc"
    and "getCamera l (getScaling (scenegraph_transformation sc)) = Some cam"
  shows "returned_matrix (do_depth_pass f l a) =
     (if next_draw_throws a then None else Some (Multiply (projection cam) (view cam)))"
  using assms
  by (simp add: do_depth_pass_def renderpass_normal_loaded and_then_def prim_defs Let_def
      next_draw_throws_def returned_matrix_def split: list.splits)

lemma example_scale:
  "getScaling (scenegraph_transformation (example_scene ls)) = (1, 1, 1)"
  by (simp add: example_scene_def example_transform_def)

lemma track_lights_ambient_only:
  "list_all (\<lambda>n. \<not> instanceof (node_light n) Directional \<and> \<not> instanceof (node_light n) Point) ns \<Longrightarrow>
   first_directional_light (track_lights ns a) = first_directional_light a \<and>
   first_point_light (track_lights ns a) = first_point_light a"
  by (induction ns arbitrary: a) (simp_all add: Let_def)

lemma openScene_ambient_only:
  assumes "ambient_only sc"
  shows "first_directional_light (state_after (openScene sc a0)) = None"
    "first_point_light (state_after (openScene sc a0)) = None"
    "scene (state_after (openScene sc a0)) = Some sc"
  using track_lights_ambient_only [OF assms [unfolded ambient_only_def]]
  by (simp_all add: openScene_def and_then_def scene_setShader_def state_after_def emit_def Let_def)

lemma renderpass_shadowmap_no_lights:
  assumes "scene a \<noteq> None" "\<not> next_draw_throws a"
    "first_directional_light a = None" "first_point_light a = None"
  shows "\<not> isl (renderpass_shadowmap w h a)"
  using assms
  by (simp add: renderpass_shadowmap_def depth_pass_if_present_def final_rendering_pass_isl)

lemma shadowmap_slots:
  assumes "\<not> isl (renderpass_shadowmap w h a)"
  shows "(first_directional_light a = None \<longrightarrow>
            shaders (state_after (renderpass_shadowmap w h a)) (shadow_shader a)
              ''u_shadow_pv_directional'' = Some (U4x4f Identity) \<and>
            FboBind Fbo_directional \<notin> set (new_events a (state_after (renderpass_shadowmap w h a))) \<and>
            filter draws_light_gizmo (new_events a (state_after (renderpass_shadowmap w h a))) =
              gizmo_of (first_point_light a)) \<and>
         (first_point_light a = None \<longrightarrow>
            shaders (state_after (renderpass_shadowmap w h a)) (shadow_shader a)
              ''u_shadow_pv_point'' = Some (U4x4f Identity) \<and>
            FboBind Fbo_point \<notin> set (new_events a (state_after (renderpass_shadowmap w h a))) \<and>
            filter draws_light_gizmo (new_events a (state_after (renderpass_shadowmap w h a))) =
              gizmo_of (first_directional_light a))"
proof -
  from assms obtain md mp a2 es where
    m: "first_directional_light a = None \<longrightarrow> md = Identity"
       "first_point_light a = None \<longrightarrow> mp = Identity"
    and l: "first_directional_light a2 = first_directional_light a"
       "first_point_light a2 = first_point_light a"
    and g: "filter draws_light_gizmo es = []"
       "\<forall>g. FboBind g \<in> set es \<longleftrightarrow>
       (g = Fbo_directional \<and> first_directional_light a \<noteq> None) \<or>
       (g = Fbo_point \<and> first_point_light a \<noteq> None)"
    and ne: "new_events a (state_after (renderpass_shadowmap w h a)) = es @ final_pass_events w h md mp a2"
    and u: "shaders (state_after (renderpass_shadowmap w h a)) (shadow_shader a)
              ''u_shadow_pv_directional'' = Some (U4x4f md)"
       "shaders (state_after (renderpass_shadowmap w h a)) (shadow_shader a)
              ''u_shadow_pv_point'' = Some (U4x4f mp)"
    by (rule shadowmap_after)
  show ?thesis
    using m u g l by (simp add: ne gizmo_of_def)
qed

lemma getCamera_not_ambient:
  "kind l \<noteq> Ambient \<Longrightarrow> \<exists>cam. getCamera l s = Some cam"
  by (cases "kind l") (simp_all add: getCamera_def)

lemma depth_pass_if_present_succeeds:
  assumes "scene a = Some sc" and "draw_throws a = []"
    and "\<forall>x. l = Some x \<longrightarrow> kind x \<noteq> Ambient"
  shows "\<exists>m a1. depth_pass_if_present f l a = Inr (m, a1) \<and> scene a1 = Some sc \<and>
    draw_throws a1 = [] \<and> first_point_light a1 = first_point_light a"
proof (cases l)
  case None
  then show ?thesis using assms by (simp add: depth_pass_if_present_def)
next
  case (Some x)
  with assms have "kind x \<noteq> Ambient" by simp
  then obtain cam where c: "getCamera x (getScaling (scenegraph_transformation sc)) = Some cam"
    using getCamera_not_ambient by blast
  have t: "\<not> next_draw_throws a" using assms by (simp add: next_draw_throws_def)
  show ?thesis
    using assms(1,2) Some by (simp add: depth_pass_if_present_def do_depth_pass_returns [OF assms(1) c t])
qed

lemma renderpass_shadowmap_succeeds:
  assumes "scene a = Some sc" and "draw_throws a = []"
    and "\<forall>x. first_directional_light a = Some x \<longrightarrow> kind x \<noteq> Ambient"
    and "\<forall>x. first_point_light a = Some x \<longrightarrow> kind x \<noteq> Ambient"
  shows "\<not> isl (renderpass_shadowmap w h a)"
proof -
  from depth_pass_if_present_succeeds [OF assms(1,2,3)] obtain md a1 where
    d1: "depth_pass_if_present Fbo_directional (first_directional_light a) a = Inr (md, a1)"
    and s1: "scene a1 = Some sc" "draw_throws a1 = []" "first_point_light a1 = first_point_light a"
    by blast
  from assms(4) s1(3) have "\<forall>x. first_point_light a1 = Some x \<longrightarrow> kind x \<noteq> Ambient" by simp
  from depth_pass_if_present_succeeds [OF s1(1,2) this] obtain mp a2 where
    d2: "depth_pass_if_present Fbo_point (first_point_light a1) a1 = Inr (mp, a2)"
    and s2: "scene a2 = Some sc" "draw_throws a2 = []"
    by blast
  show ?thesis
    using d1 d2 s2 by (simp add: renderpass_shadowmap_def final_rendering_pass_isl next_draw_throws_def)
qed

lemma renderpass_pixel_filter_current_fbo:
  "take 2 (new_events a (state_after (renderpass_pixel_filter w h a))) =
     [FboResize (fbo a) w h, FboBind (fbo a)] \<and>
   framebuffers (state_after (renderpass_pixel_filter w h a)) (fbo a) = \<lparr>width = w, height = h\<rparr>"
  by (simp add: renderpass_pixel_filter_def renderpass_normal_def scene_setShader_def
      scene_render_def and_then_def prim_defs Let_def new_events_def state_after_def
      split: option.splits list.splits)

lemma renderpass_pixel_filter_order:
  assumes "scene a = Some sc" and "draw_throws a = []"
  shows "\<not> isl (renderpass_pixel_filter w h a) \<and>
     new_events a (state_after (renderpass_pixel_filter w h a)) = pixel_filter_events w h a"
  using assms
  by (simp add: renderpass_pixel_filter_def renderpass_normal_def scene_setShader_def
      scene_render_def and_then_def prim_defs Let_def new_events_def state_after_def
      pixel_filter_events_def)

section \<open>The claims\<close>

subsection \<open>C1: restoring the camera uniforms after a depth pass\<close>

text \<open>
  Claim C1 as stated fails when the draw fails. With a scene draw that throws,
  \<^verbatim>\<open>do_depth_pass\<close> on the example scene ends with
  the exception, and the active shader keeps the eye, view and projection of the shadow
  camera: they differ from those of the main camera.
\<close>

theorem depth_pass_draw_failure_counterexample:
  "isl (do_depth_pass Fbo_directional example_directional_light
          ((example_app [example_directional_light])\<lparr>draw_throws := [True]\<rparr>)) \<and>
   camera_uniforms (active_shader (example_app [example_directional_light]))
     (state_after_depth_pass
        (do_depth_pass Fbo_directional example_directional_light
           ((example_app [example_directional_light])\<lparr>draw_throws := [True]\<rparr>))) \<noteq>
   uniforms_of_camera (camera (example_app [example_directional_light]))"
proof -
  let ?a = "(example_app [example_directional_light])\<lparr>draw_throws := [True]\<rparr>"
  have s: "scene ?a = Some (example_scene [example_directional_light])"
    by (simp add: example_app_fields)
  have t: "next_draw_throws ?a" by (simp add: next_draw_throws_def)
  have ac: "active_shader ?a = active_shader (example_app [example_directional_light])" by simp
  from do_depth_pass_camera_uniforms [OF s example_getCamera, of Fbo_directional] t
  have "isl (do_depth_pass Fbo_directional example_directional_light ?a)"
    and "camera_uniforms (active_shader ?a)
           (state_after_depth_pass (do_depth_pass Fbo_directional example_directional_light ?a)) =
         uniforms_of_camera (DirectionalLight_getCamera example_directional_light
           (getScaling (scenegraph_transformation (example_scene [example_directional_light]))))"
    by simp_all
  moreover have "uniforms_of_camera (DirectionalLight_getCamera example_directional_light
           (getScaling (scenegraph_transformation (example_scene [example_directional_light])))) \<noteq>
     uniforms_of_camera (camera (example_app [example_directional_light]))"
    by (simp add: uniforms_of_camera_def DirectionalLight_getCamera_fields example_app_fields
        default_camera_eye)
  ultimately show ?thesis unfolding ac by simp
qed

text \<open>
  Claim C1, amended. For a loaded scene and a light that has a shadow camera: when the
  scene draw inside the pass returns, \<^verbatim>\<open>do_depth_pass\<close> returns and the active shader's
  \<^verbatim>\<open>u_eye\<close>, \<^verbatim>\<open>u_v\<close> and \<^verbatim>\<open>u_p\<close> equal the eye, view matrix and projection
  matrix of the main camera; when the scene draw throws, the pass ends with the exception,
  the restoring block is not reached, and the three uniforms keep the values of the shadow
  camera.
\<close>

theorem depth_pass_restores_camera_uniforms:
  assumes "scene a = Some sc"
    and "getCamera l (getScaling (scenegraph_transformation sc)) = Some cam"
  shows "if next_draw_throws a then
           isl (do_depth_pass f l a) \<and>
           camera_uniforms (active_shader a) (state_after_depth_pass (do_depth_pass f l a)) =
             uniforms_of_camera cam
         else
           \<not> isl (do_depth_pass f l a) \<and>
           camera_uniforms (active_shader a) (state_after_depth_pass (do_depth_pass f l a)) =
             uniforms_of_camera (camera a)"
  using assms by (rule do_depth_pass_camera_uniforms)

text \<open>
  The example scene with one directional light satisfies the hypotheses; its draw returns
  and the uniforms of shader 2 are those of the default camera.
\<close>

theorem depth_pass_restores_camera_uniforms_witness:
  "scene (example_app [example_directional_light]) = Some (example_scene [example_directional_light]) \<and>
   getCamera example_directional_light
     (getScaling (scenegraph_transformation (example_scene [example_directional_light]))) =
   Some (DirectionalLight_getCamera example_directional_light (1, 1, 1)) \<and>
   \<not> isl (do_depth_pass Fbo_directional example_directional_light
            (example_app [example_directional_light])) \<and>
   camera_uniforms 2
     (state_after_depth_pass
        (do_depth_pass Fbo_directional example_directional_light
           (example_app [example_directional_light]))) =
   uniforms_of_camera default_camera"
proof -
  let ?a = "example_app [example_directional_light]"
  have s: "scene ?a = Some (example_scene [example_directional_light])"
    by (simp add: example_app_fields)
  have c: "getCamera example_directional_light
     (getScaling (scenegraph_transformation (example_scene [example_directional_light]))) =
     Some (DirectionalLight_getCamera example_directional_light (1, 1, 1))"
    by (simp add: example_getCamera example_scale)
  have t: "\<not> next_draw_throws ?a" by (simp add: next_draw_throws_def example_app_fields)
  from depth_pass_restores_camera_uniforms [OF s c, of Fbo_directional] t
  have "\<not> isl (do_depth_pass Fbo_directional example_directional_light ?a) \<and>
     camera_uniforms (active_shader ?a)
       (state_after_depth_pass (do_depth_pass Fbo_directional example_directional_light ?a)) =
     uniforms_of_camera (camera ?a)"
    by simp
  with s c show ?thesis by (simp add: example_app_fields)
qed

subsection \<open>C2: the bounds of the directional shadow camera\<close>

text \<open>
  Claim C2 as stated fails on the third axis. For the scene scale \<open>(1, 0, 0)\<close>, of
  length 1, the projection is not the orthographic
  one with bounds \<open>[-1, 1]\<close> on all three axes.
\<close>

theorem directional_camera_near_far_counterexample:
  "0 < vec3_length (1, 0, 0) \<and>
   projection (DirectionalLight_getCamera example_directional_light (1, 0, 0)) \<noteq>
     Ortho (- vec3_length (1, 0, 0)) (vec3_length (1, 0, 0))
           (- vec3_length (1, 0, 0)) (vec3_length (1, 0, 0))
           (- vec3_length (1, 0, 0)) (vec3_length (1, 0, 0))"
  by (simp add: DirectionalLight_getCamera_fields)

text \<open>
  Claim C2, amended. For every scene scale \<open>s\<close> of positive length, the camera of
  \<^verbatim>\<open>DirectionalLight.getCamera\<close> is orthographic with left and right, and bottom and
  top, equal to minus and plus the length of \<open>s\<close>; near and far are the defaults of
  \<^verbatim>\<open>OrthoCamera\<close>, 0.01 and 100.
\<close>

theorem directional_camera_bounds:
  "0 < vec3_length s \<Longrightarrow>
   projection (DirectionalLight_getCamera this s) =
     Ortho (- vec3_length s) (vec3_length s) (- vec3_length s) (vec3_length s) (1 / 100) 100"
  by (simp add: DirectionalLight_getCamera_fields)

theorem directional_camera_bounds_witness:
  "0 < vec3_length (1, 0, 0) \<and>
   projection (DirectionalLight_getCamera example_directional_light (1, 0, 0)) =
     Ortho (- 1) 1 (- 1) 1 (1 / 100) 100"
  using directional_camera_bounds [of "(1, 0, 0)" example_directional_light] by simp

subsection \<open>C3: direction and eye of the directional shadow camera\<close>

text \<open>
  Claim C3 on the code. For the example directional light, whose rotation is the identity,
  and the scene scale \<open>(1, 0, 0)\<close>, \<^verbatim>\<open>getCamera\<close> leaves eye and centre at the origin;
  rotating \<open>(0, -1, 0)\<close> by the rotation of the light gives \<open>(0, -1, 0)\<close>, and centre
  minus direction times radius would be \<open>(0, 1, 0)\<close>.
\<close>

theorem directional_camera_ignores_rotation:
  "eye (DirectionalLight_getCamera example_directional_light (1, 0, 0)) = (0, 0, 0) \<and>
   center (DirectionalLight_getCamera example_directional_light (1, 0, 0)) = (0, 0, 0) \<and>
   vec3_transformQuat (0, - 1, 0) (getRotation (model_matrix example_directional_light)) = (0, - 1, 0) \<and>
   vec3_sub (center (DirectionalLight_getCamera example_directional_light (1, 0, 0)))
     (vec3_scale
        (vec3_transformQuat (0, - 1, 0) (getRotation (model_matrix example_directional_light)))
        (vec3_length (1, 0, 0))) = (0, 1, 0)"
  by (simp add: DirectionalLight_getCamera_fields example_directional_light_def example_transform_def)

subsection \<open>C4: eye and field of view of the point shadow camera\<close>

text \<open>
  Claim C4 on the code. For the example point light, whose translation is \<open>(1, 2, 3)\<close>,
  \<^verbatim>\<open>getCamera\<close> puts the eye at the origin, and the field of view is 180 degrees.
\<close>

theorem point_camera_eye_at_origin:
  "getTranslation (model_matrix example_point_light) = (1, 2, 3) \<and>
   eye (PointLight_getCamera example_point_light (1, 1, 1)) = (0, 0, 0) \<and>
   fovy (PointLight_getCamera example_point_light (1, 1, 1)) = 180"
  by (simp add: PointLight_getCamera_fields example_point_light_def example_transform_def)

subsection \<open>C5: a light slot without a light\<close>

text \<open>
  Claim C5. Opening a scene that holds no directional and no point light leaves both light
  slots empty. With both slots empty, a loaded scene and a draw that returns, the
  shadow-map pass returns. Whenever the pass returns, for each empty slot the combined
  shadow matrix uploaded for it is the identity, its framebuffer is never bound (no depth
  pass), and the only gizmo drawn, if any, is that of the other slot.
\<close>

theorem shadowmap_missing_light:
  "(ambient_only sc \<longrightarrow>
      first_directional_light (state_after (openScene sc a0)) = None \<and>
      first_point_light (state_after (openScene sc a0)) = None \<and>
      scene (state_after (openScene sc a0)) = Some sc) \<and>
   (scene a \<noteq> None \<and> \<not> next_draw_throws a \<and>
    first_directional_light a = None \<and> first_point_light a = None \<longrightarrow>
      \<not> isl (renderpass_shadowmap w h a)) \<and>
   (\<not> isl (renderpass_shadowmap w h a) \<longrightarrow>
      (first_directional_light a = None \<longrightarrow>
         shaders (state_after (renderpass_shadowmap w h a)) (shadow_shader a)
           ''u_shadow_pv_directional'' = Some (U4x4f Identity) \<and>
         FboBind Fbo_directional \<notin> set (new_events a (state_after (renderpass_shadowmap w h a))) \<and>
         filter draws_light_gizmo (new_events a (state_after (renderpass_shadowmap w h a))) =
           gizmo_of (first_point_light a)) \<and>
      (first_point_light a = None \<longrightarrow>
         shaders (state_after (renderpass_shadowmap w h a)) (shadow_shader a)
           ''u_shadow_pv_point'' = Some (U4x4f Identity) \<and>
         FboBind Fbo_point \<notin> set (new_events a (state_after (renderpass_shadowmap w h a))) \<and>
         filter draws_light_gizmo (new_events a (state_after (renderpass_shadowmap w h a))) =
           gizmo_of (first_directional_light a)))"
  using openScene_ambient_only [of sc a0] renderpass_shadowmap_no_lights [of a w h]
    shadowmap_slots [of w h a]
  by blast

text \<open>
  The example scene with an ambient light only: both matrices are the identity, neither
  shadow framebuffer is bound, no gizmo is drawn, and the pass returns.
\<close>

theorem shadowmap_missing_light_witness:
  "ambient_only (example_scene [example_ambient_light]) \<and>
   \<not> isl (renderpass_shadowmap 800 600 (example_app [example_ambient_light])) \<and>
   shaders (state_after (renderpass_shadowmap 800 600 (example_app [example_ambient_light]))) 4
     ''u_shadow_pv_directional'' = Some (U4x4f Identity) \<and>
   shaders (state_after (renderpass_shadowmap 800 600 (example_app [example_ambient_light]))) 4
     ''u_shadow_pv_point'' = Some (U4x4f Identity) \<and>
   FboBind Fbo_directional \<notin> set (new_events (example_app [example_ambient_light])
     (state_after (renderpass_shadowmap 800 600 (example_app [example_ambient_light])))) \<and>
   FboBind Fbo_point \<notin> set (new_events (example_app [example_ambient_light])
     (state_after (renderpass_shadowmap 800 600 (example_app [example_ambient_light])))) \<and>
   filter draws_light_gizmo (new_events (example_app [example_ambient_light])
     (state_after (renderpass_shadowmap 800 600 (example_app [example_ambient_light])))) = []"
proof -
  let ?sc = "example_scene [example_ambient_light]"
  let ?a = "example_app [example_ambient_light]"
  note T = shadowmap_missing_light [of ?sc "RenderPasses 6" ?a 800 600, folded example_app_def]
  have h0: "ambient_only ?sc"
    by (simp add: ambient_only_def example_scene_def instanceof_def example_ambient_light_def)
  from T h0 have l: "first_directional_light ?a = None" "first_point_light ?a = None"
    "scene ?a = Some ?sc" by blast+
  have t: "\<not> next_draw_throws ?a" by (simp add: next_draw_throws_def example_app_fields)
  from T l t have r: "\<not> isl (renderpass_shadowmap 800 600 ?a)" by simp
  from T r l h0 show ?thesis by (simp add: example_app_fields gizmo_of_def)
qed

subsection \<open>C6: the matrix returned by a depth pass\<close>

text \<open>
  Claim C6. For a loaded scene and a light with a shadow camera, \<^verbatim>\<open>do_depth_pass\<close>
  returns the product of the projection and the view matrix of that camera, in this
  order; it returns nothing only when the scene draw throws.
\<close>

theorem depth_pass_returns_projection_times_view:
  assumes "scene a = Some sc"
    and "getCamera l (getScaling (scenegraph_transformation sc)) = Some cam"
  shows "returned_matrix (do_depth_pass f l a) =
     (if next_draw_throws a then None else Some (Multiply (projection cam) (view cam)))"
  using assms by (rule do_depth_pass_returned_matrix)

theorem depth_pass_returns_projection_times_view_witness:
  "scene (example_app [example_directional_light]) = Some (example_scene [example_directional_light]) \<and>
   getCamera example_directional_light
     (getScaling (scenegraph_transformation (example_scene [example_directional_light]))) =
   Some (DirectionalLight_getCamera example_directional_light (1, 1, 1)) \<and>
   returned_matrix (do_depth_pass Fbo_directional example_directional_light
      (example_app [example_directional_light])) =
   Some (Multiply (projection (DirectionalLight_getCamera example_directional_light (1, 1, 1)))
                  (view (DirectionalLight_getCamera example_directional_light (1, 1, 1))))"
proof -
  let ?a = "example_app [example_directional_light]"
  have s: "scene ?a = Some (example_scene [example_directional_light])"
    by (simp add: example_app_fields)
  have c: "getCamera example_directional_light
     (getScaling (scenegraph_transformation (example_scene [example_directional_light]))) =
     Some (DirectionalLight_getCamera example_directional_light (1, 1, 1))"
    by (simp add: example_getCamera example_scale)
  have t: "\<not> next_draw_throws ?a" by (simp add: next_draw_throws_def example_app_fields)
  from depth_pass_returns_projection_times_view [OF s c, of Fbo_directional] t
  have "returned_matrix (do_depth_pass Fbo_directional example_directional_light ?a) =
   Some (Multiply (projection (DirectionalLight_getCamera example_directional_light (1, 1, 1)))
                  (view (DirectionalLight_getCamera example_directional_light (1, 1, 1))))"
    by simp
  with s c show ?thesis by simp
qed

subsection \<open>C7: the texture units of the shadow maps\<close>

text \<open>
  Claim C7. Whenever the shadow-map pass returns: the samplers of the directional and of
  the point shadow map are set to the units 3 and 4; at the final scene draw these units
  hold the depth textures of the directional and of the point framebuffer; the two units
  differ from each other and from the units of the material textures; and after the pass
  both units are bound to no texture.
\<close>

theorem shadowmap_texture_units:
  assumes "\<not> isl (renderpass_shadowmap w h a)"
  shows "shaders (state_after (renderpass_shadowmap w h a)) (shadow_shader a)
           ''u_shadow_tex_directional'' = Some (U1i 3) \<and>
         shaders (state_after (renderpass_shadowmap w h a)) (shadow_shader a)
           ''u_shadow_tex_point'' = Some (U1i 4) \<and>
         map_option (\<lambda>e. (draw_units e 3, draw_units e 4))
           (last_draw (new_events a (state_after (renderpass_shadowmap w h a)))) =
           Some (Some (DepthTexture Fbo_directional), Some (DepthTexture Fbo_point)) \<and>
         distinct (3 # 4 # material_texture_units) \<and>
         texture_units (state_after (renderpass_shadowmap w h a)) 3 = None \<and>
         texture_units (state_after (renderpass_shadowmap w h a)) 4 = None"
proof -
  from assms obtain md mp a2 es where
    ne: "new_events a (state_after (renderpass_shadowmap w h a)) = es @ final_pass_events w h md mp a2"
    and u: "shaders (state_after (renderpass_shadowmap w h a)) (shadow_shader a)
              ''u_shadow_tex_directional'' = Some (U1i 3)"
      "shaders (state_after (renderpass_shadowmap w h a)) (shadow_shader a)
              ''u_shadow_tex_point'' = Some (U1i 4)"
    and t: "texture_units (state_after (renderpass_shadowmap w h a)) 3 = None"
      "texture_units (state_after (renderpass_shadowmap w h a)) 4 = None"
    by (rule shadowmap_after)
  show ?thesis
    using u t by (simp add: ne material_texture_units_def)
qed

theorem shadowmap_texture_units_witness:
  "\<not> isl (renderpass_shadowmap 800 600
      (example_app [example_ambient_light, example_point_light, example_directional_light])) \<and>
   shaders (state_after (renderpass_shadowmap 800 600
      (example_app [example_ambient_light, example_point_light, example_directional_light]))) 4
      ''u_shadow_tex_directional'' = Some (U1i 3) \<and>
   shaders (state_after (renderpass_shadowmap 800 600
      (example_app [example_ambient_light, example_point_light, example_directional_light]))) 4
      ''u_shadow_tex_point'' = Some (U1i 4) \<and>
   texture_units (state_after (renderpass_shadowmap 800 600
      (example_app [example_ambient_light, example_point_light, example_directional_light]))) 3 = None \<and>
   texture_units (state_after (renderpass_shadowmap 800 600
      (example_app [example_ambient_light, example_point_light, example_directional_light]))) 4 = None"
proof -
  let ?a = "example_app [example_ambient_light, example_point_light, example_directional_light]"
  have k: "\<forall>x. first_directional_light ?a = Some x \<longrightarrow> kind x \<noteq> Ambient"
    "\<forall>x. first_point_light ?a = Some x \<longrightarrow> kind x \<noteq> Ambient"
    by (simp_all add: example_lights) (simp_all add: example_directional_light_def example_point_light_def)
  have h: "\<not> isl (renderpass_shadowmap 800 600 ?a)"
    using example_app_fields(1,5) k by (rule renderpass_shadowmap_succeeds)
  from shadowmap_texture_units [OF h] h show ?thesis
    by (simp add: example_app_fields)
qed

subsection \<open>C8: the framebuffer of the pixel-filter pass\<close>

text \<open>
  Claim C8 on the code. The application starts with \<^verbatim>\<open>this.fbo\<close> referring to the
  pixel-filter framebuffer. After one shadow-map pass it refers to the directional shadow
  framebuffer, and a pixel-filter pass for a canvas of 800 by 600 then resizes and binds
  that framebuffer, which ends with the size of the canvas.
\<close>

theorem pixel_filter_after_shadowmap:
  "fbo (example_app []) = Fbo_pixel_filter \<and>
   fbo (state_after (renderpass_shadowmap 800 600 (example_app []))) = Fbo_directional \<and>
   take 2 (new_events (state_after (renderpass_shadowmap 800 600 (example_app [])))
     (state_after (renderpass_pixel_filter 800 600
        (state_after (renderpass_shadowmap 800 600 (example_app [])))))) =
     [FboResize Fbo_directional 800 600, FboBind Fbo_directional] \<and>
   framebuffers (state_after (renderpass_pixel_filter 800 600
        (state_after (renderpass_shadowmap 800 600 (example_app []))))) Fbo_directional =
     \<lparr>width = 800, height = 600\<rparr>"
proof -
  let ?a = "example_app []"
  let ?a1 = "state_after (renderpass_shadowmap 800 600 ?a)"
  have h: "\<not> isl (renderpass_shadowmap 800 600 ?a)"
    by (rule renderpass_shadowmap_no_lights)
      (simp_all add: example_app_fields example_lights next_draw_throws_def)
  from h have f: "fbo ?a1 = Fbo_directional"
    by (rule shadowmap_after)
  from renderpass_pixel_filter_current_fbo [of ?a1 800 600] f
  show ?thesis by (simp add: example_app_fields)
qed

subsection \<open>C9: the view-space vectors of a camera\<close>

text \<open>
  Claim C9 as stated fails for a direction along the up axis. For the eye
  \<open>(0, 1, 0)\<close> and the centre at the origin, the direction from centre to eye
  is the world up axis, and the vectors that \<^verbatim>\<open>updateViewSpaceVectors\<close> computes are
  not an orthonormal frame (right and up are the zero vector).
\<close>

theorem view_space_vectors_counterexample:
  "\<not> orthonormal_frame (updateViewSpaceVectors (BaseCamera (0, 1, 0) (0, 0, 0)))"
  by (simp add: orthonormal_frame_def orthonormal_def unit_vector_def BaseCamera_def
      updateViewSpaceVectors_def Let_def)

text \<open>
  Claim C9, amended. For every camera whose eye-to-centre direction is not parallel to the
  world up axis (in particular eye and centre differ), the forward, right and up vectors
  after \<^verbatim>\<open>updateViewSpaceVectors\<close> are mutually orthogonal unit vectors. The
  constructor leaves the vectors as computed from eye and centre, and \<^verbatim>\<open>update\<close>
  either reports a change and leaves them recomputed from the new eye and centre, or
  reports none and leaves the camera as it was.
\<close>

theorem view_space_vectors_orthonormal:
  "(\<not> parallel_to_up (vec3_sub (eye c) (center c)) \<longrightarrow>
      orthonormal_frame (updateViewSpaceVectors c)) \<and>
   frame (BaseCamera e ct) = frame (updateViewSpaceVectors (BaseCamera e ct)) \<and>
   (if fst (update rotateY transformMat4 inp delta_time c)
    then frame (snd (update rotateY transformMat4 inp delta_time c)) =
         frame (updateViewSpaceVectors (snd (update rotateY transformMat4 inp delta_time c)))
    else snd (update rotateY transformMat4 inp delta_time c) = c)"
  using updateViewSpaceVectors_orthonormal [of c] BaseCamera_frame [of e ct]
    update_recomputes [of rotateY transformMat4 inp delta_time c
      "fst (update rotateY transformMat4 inp delta_time c)"
      "snd (update rotateY transformMat4 inp delta_time c)"]
  by simp

theorem view_space_vectors_orthonormal_witness:
  "\<not> parallel_to_up (vec3_sub (eye default_camera) (center default_camera)) \<and>
   orthonormal_frame (updateViewSpaceVectors default_camera)"
proof -
  have h: "\<not> parallel_to_up (vec3_sub (eye default_camera) (center default_camera))"
    by (simp add: parallel_to_up_def default_camera_def PerspectiveCamera_def BaseCamera_def
      updateViewSpaceVectors_def Let_def base_camera.defs camera.defs)
  from view_space_vectors_orthonormal [of default_camera] h
  have "orthonormal_frame (updateViewSpaceVectors default_camera)" by blast
  with h show ?thesis by simp
qed

subsection \<open>C10: updating a light without a target shader\<close>

text \<open>
  Claim C10. For a light of any kind whose target shader is \<^verbatim>\<open>null\<close>, \<^verbatim>\<open>update\<close>
  returns with the application state unchanged, so without any call on a shader, and with
  the light unchanged.
\<close>

theorem update_without_target_shader:
  "target_shader this = None \<Longrightarrow> light_update this a = (this, a)"
  by (simp add: light_update_def AmbientLight_update_def DirectionalLight_update_def
      PointLight_update_def Let_def split: light_kind.splits)

theorem update_without_target_shader_witness:
  "target_shader example_point_light = None \<and>
   light_update example_point_light (RenderPasses 6) = (example_point_light, RenderPasses 6)"
proof -
  have h: "target_shader example_point_light = None" by (simp add: example_point_light_def)
  from update_without_target_shader [OF h] h show ?thesis by simp
qed

end
